theory Spec2Isabelle
  imports Main
begin

section \<open>Values and exceptions\<close>

text \<open>
  The pipeline of \<^verbatim>\<open>src/data_pipeline.py\<close> reads a table of movies, explodes the two
  columns that hold pseudo-JSON lists (\<^verbatim>\<open>genres\<close>, \<^verbatim>\<open>production_companies\<close>) into
  entity and association lists, and deduplicates them.

  Python exceptions are values of \<open>py_error\<close>; a computation that may raise returns
  \<open>py_error + 'a\<close>, with \<open>Inl\<close> for the exception.
\<close>

datatype py_error =
    JSONDecodeError
  | ValueError
  | RecursionError
  | AttributeError
  | KeyError string
  | TypeError

text \<open>
  What \<^verbatim>\<open>json.loads\<close> returns. A Python \<^verbatim>\<open>str\<close> is carried as its UTF-8 bytes.
  A Python \<^verbatim>\<open>float\<close> is carried as the text that denotes it (\<^verbatim>\<open>NaN\<close>, \<^verbatim>\<open>Infinity\<close> and
  \<^verbatim>\<open>-Infinity\<close> included): floating-point arithmetic is outside this development, and
  so are Python's numeric coercions when values are compared (\<^verbatim>\<open>1 == 1.0 == True\<close>).
  A \<^verbatim>\<open>dict\<close> is an association list in insertion order with one entry per key.
\<close>

datatype json =
    JNull
  | JBool bool
  | JInt int
  | JFloat string
  | JStr string
  | JArr "json list"
  | JObj "(string \<times> json) list"

text \<open>
  A cell of the data frame read from the CSV file: missing (\<^verbatim>\<open>NaN\<close>, a float), an integer,
  or text. Columns of other dtypes are outside the model.
\<close>

datatype cell = NaN | IntCell int | StrCell string

text \<open>
  Two limits of the interpreter that \<^verbatim>\<open>json.loads\<close> can hit. \<open>max_nesting\<close> is the number of
  containers that may be open at once before the decoder exhausts the recursion limit;
  \<open>int_max_str_digits\<close> is \<^verbatim>\<open>sys.get_int_max_str_digits()\<close> (0 switches the check off).
\<close>

record limits =
  max_nesting :: nat
  int_max_str_digits :: nat

text \<open>
  A usual setting. The sample inputs of this development open two containers at most and
  have short integers: every setting with \<open>max_nesting\<close> of 2 or more treats them alike.
\<close>

definition default_limits :: limits where
  "default_limits = \<lparr>max_nesting = 900, int_max_str_digits = 4300\<rparr>"

section \<open>The JSON decoder\<close>

subsection \<open>Characters\<close>

definition sq :: char where "sq = CHR 0x27"
definition dq :: char where "dq = CHR 0x22"
definition backslash :: char where "backslash = CHR 0x5C"

definition is_ws :: "char \<Rightarrow> bool" where
  "is_ws c \<longleftrightarrow> c \<in> {CHR '' '', CHR 0x09, CHR 0x0A, CHR 0x0D}"

definition is_digit :: "char \<Rightarrow> bool" where
  "is_digit c \<longleftrightarrow> c \<in> set ''0123456789''"

definition digit_val :: "char \<Rightarrow> nat" where
  "digit_val c = of_char c - 48"

definition hex_val :: "char \<Rightarrow> nat option" where
  "hex_val c =
     (if c \<in> set ''0123456789'' then Some (of_char c - 48)
      else if c \<in> set ''abcdef'' then Some (of_char c - 87)
      else if c \<in> set ''ABCDEF'' then Some (of_char c - 55)
      else None)"

definition hex4 :: "char \<Rightarrow> char \<Rightarrow> char \<Rightarrow> char \<Rightarrow> nat option" where
  "hex4 a b c d =
     (case (hex_val a, hex_val b, hex_val c, hex_val d) of
        (Some w, Some x, Some y, Some z) \<Rightarrow> Some (((w * 16 + x) * 16 + y) * 16 + z)
      | _ \<Rightarrow> None)"

text \<open>The UTF-8 bytes of a code point (a lone surrogate gets the three-byte form).\<close>

definition utf8 :: "nat \<Rightarrow> string" where
  "utf8 n =
     (if n < 0x80 then [char_of n]
      else if n < 0x800 then [char_of (0xC0 + n div 64), char_of (0x80 + n mod 64)]
      else if n < 0x10000 then
        [char_of (0xE0 + n div 4096), char_of (0x80 + n div 64 mod 64), char_of (0x80 + n mod 64)]
      else
        [char_of (0xF0 + n div 262144), char_of (0x80 + n div 4096 mod 64),
         char_of (0x80 + n div 64 mod 64), char_of (0x80 + n mod 64)])"

subsection \<open>String literals\<close>

definition simple_escape :: "char \<Rightarrow> char option" where
  "simple_escape e =
     (if e = dq then Some dq
      else if e = backslash then Some backslash
      else if e = CHR ''/'' then Some (CHR ''/'')
      else if e = CHR ''b'' then Some (CHR 0x08)
      else if e = CHR ''f'' then Some (CHR 0x0C)
      else if e = CHR ''n'' then Some (CHR 0x0A)
      else if e = CHR ''r'' then Some (CHR 0x0D)
      else if e = CHR ''t'' then Some (CHR 0x09)
      else None)"

text \<open>
  \<open>low_surrogate hi s\<close>: after a \<^verbatim>\<open>\uXXXX\<close> escape that denotes \<open>hi\<close>, the text \<open>s\<close> follows.
  If \<open>hi\<close> is a high surrogate and \<open>s\<close> starts with another \<^verbatim>\<open>\u\<close> escape, that escape must be
  well-formed, and when it denotes a low surrogate the two are combined.
  The result is the code point and the number of characters of \<open>s\<close> used (0 or 6).
\<close>

definition low_surrogate :: "nat \<Rightarrow> string \<Rightarrow> (nat \<times> nat) option" where
  "low_surrogate hi s =
     (if 0xD800 \<le> hi \<and> hi \<le> 0xDBFF \<and> take 2 s = [backslash, CHR ''u''] then
        (case drop 2 s of
           a # b # c # d # _ \<Rightarrow>
             (case hex4 a b c d of
                None \<Rightarrow> None
              | Some lo \<Rightarrow>
                  if 0xDC00 \<le> lo \<and> lo \<le> 0xDFFF
                  then Some (0x10000 + (hi - 0xD800) * 1024 + (lo - 0xDC00), 6)
                  else Some (hi, 0))
         | _ \<Rightarrow> None)
      else Some (hi, 0))"

text \<open>
  \<open>scan_string s\<close> reads a string literal whose opening quote has been consumed: the
  decoded text and what follows the closing quote. Strict mode: a control character inside
  the literal is an error, as are an unknown escape and a missing closing quote.
\<close>

fun scan_string :: "string \<Rightarrow> (string \<times> string) option" where
  "scan_string [] = None"
| "scan_string (c # cs) =
     (if c = dq then Some ([], cs)
      else if c = backslash then
        (case cs of
           [] \<Rightarrow> None
         | e # es \<Rightarrow>
             if e = CHR ''u'' then
               (case es of
                  a # b # c' # d # rest \<Rightarrow>
                    (case hex4 a b c' d of
                       None \<Rightarrow> None
                     | Some hi \<Rightarrow>
                         (case low_surrogate hi rest of
                            None \<Rightarrow> None
                          | Some (cp, n) \<Rightarrow>
                              if n = 0
                              then map_option (\<lambda>(s, r). (utf8 cp @ s, r)) (scan_string rest)
                              else
                                (case rest of
                                   _ # _ # _ # _ # _ # _ # rest' \<Rightarrow>
                                     map_option (\<lambda>(s, r). (utf8 cp @ s, r)) (scan_string rest')
                                 | _ \<Rightarrow> None)))
                | _ \<Rightarrow> None)
             else
               (case simple_escape e of
                  None \<Rightarrow> None
                | Some x \<Rightarrow> map_option (\<lambda>(s, r). (x # s, r)) (scan_string es)))
      else if (of_char c :: nat) < 0x20 then None
      else map_option (\<lambda>(s, r). (c # s, r)) (scan_string cs))"

subsection \<open>Numbers and literal names\<close>

text \<open>
  A number is the longest text matching \<^verbatim>\<open>-?(0|[1-9][0-9]*)(\.[0-9]+)?([eE][-+]?[0-9]+)?\<close>.
  Each of the three functions below returns what it matched and the rest of the text.
\<close>

definition int_part :: "string \<Rightarrow> (string \<times> string) option" where
  "int_part s =
     (case s of
        [] \<Rightarrow> None
      | c # cs \<Rightarrow>
          if c = CHR ''0'' then Some ([c], cs)
          else if is_digit c then Some (c # takeWhile is_digit cs, dropWhile is_digit cs)
          else None)"

definition frac_part :: "string \<Rightarrow> string \<times> string" where
  "frac_part s =
     (case s of
        [] \<Rightarrow> ([], s)
      | c # cs \<Rightarrow>
          if c = CHR ''.'' \<and> takeWhile is_digit cs \<noteq> []
          then (c # takeWhile is_digit cs, dropWhile is_digit cs)
          else ([], s))"

definition exp_part :: "string \<Rightarrow> string \<times> string" where
  "exp_part s =
     (case s of
        [] \<Rightarrow> ([], s)
      | e # cs \<Rightarrow>
          if e \<in> set ''eE'' then
            (let (sign, ds) =
               (case cs of
                  [] \<Rightarrow> ([], cs)
                | d # ds' \<Rightarrow> if d \<in> set ''-+'' then ([d], ds') else ([], cs))
             in if takeWhile is_digit ds \<noteq> []
                then (e # sign @ takeWhile is_digit ds, dropWhile is_digit ds)
                else ([], s))
          else ([], s))"

definition int_of_digits :: "string \<Rightarrow> int" where
  "int_of_digits ds = int (foldl (\<lambda>n c. 10 * n + digit_val c) 0 ds)"

text \<open>
  The tokens of a JSON text. \<open>BigInt\<close> is an integer literal with more digits than the
  interpreter converts (\<^verbatim>\<open>int\<close> raises \<^verbatim>\<open>ValueError\<close> on it); \<open>Bad\<close> marks the place where no
  token can be read, and is the last token when it occurs.
\<close>

datatype token =
    LBracket | RBracket | LBrace | RBrace | Comma | Colon
  | Scalar json
  | BigInt
  | Bad

definition too_many_digits :: "limits \<Rightarrow> nat \<Rightarrow> bool" where
  "too_many_digits lim n \<longleftrightarrow> 640 < n \<and> 0 < int_max_str_digits lim \<and> int_max_str_digits lim < n"

definition scan_number :: "limits \<Rightarrow> string \<Rightarrow> (token \<times> string) option" where
  "scan_number lim s =
     (let (sign, s1) =
        (case s of
           [] \<Rightarrow> ([], s)
         | c # cs \<Rightarrow> if c = CHR ''-'' then ([c], cs) else ([], s))
      in case int_part s1 of
           None \<Rightarrow> None
         | Some (ds, s2) \<Rightarrow>
             (let (fr, s3) = frac_part s2; (ex, s4) = exp_part s3
              in if fr = [] \<and> ex = [] then
                   (if too_many_digits lim (length ds) then Some (BigInt, s4)
                    else Some (Scalar (JInt (if sign = [] then int_of_digits ds
                                             else - int_of_digits ds)), s4))
                 else Some (Scalar (JFloat (sign @ ds @ fr @ ex)), s4)))"

definition literal_names :: "(string \<times> json) list" where
  "literal_names =
     [(''null'', JNull), (''true'', JBool True), (''false'', JBool False),
      (''NaN'', JFloat ''NaN''), (''Infinity'', JFloat ''Infinity''),
      (''-Infinity'', JFloat ''-Infinity'')]"

fun scan_literal :: "(string \<times> json) list \<Rightarrow> string \<Rightarrow> (token \<times> string) option" where
  "scan_literal [] s = None"
| "scan_literal ((name, v) # rest) s =
     (if take (length name) s = name then Some (Scalar v, drop (length name) s)
      else scan_literal rest s)"

definition scan_atom :: "limits \<Rightarrow> string \<Rightarrow> (token \<times> string) option" where
  "scan_atom lim s =
     (case scan_number lim s of
        Some r \<Rightarrow> Some r
      | None \<Rightarrow> scan_literal literal_names s)"

subsection \<open>Tokens\<close>

lemma scan_string_length: "scan_string s = Some (t, r) \<Longrightarrow> length r \<le> length s"
proof (induction s arbitrary: t r rule: scan_string.induct)
  case 1
  then show ?case by simp
next
  case (2 c cs)
  show ?case
  proof (cases "c = dq")
    case True
    with "2.prems" show ?thesis by simp
  next
    case ndq: False
    show ?thesis
    proof (cases "c = backslash")
      case False
      with ndq "2.prems" "2.IH"(4) show ?thesis
        by (fastforce split: if_splits)
    next
      case bs: True
      show ?thesis
      proof (cases cs)
        case Nil
        with ndq bs "2.prems" show ?thesis by simp
      next
        case (Cons e es)
        show ?thesis
        proof (cases "e = CHR ''u''")
          case False
          with ndq bs Cons "2.prems" "2.IH"(3) show ?thesis
            by (fastforce split: option.splits)
        next
          case u: True
          from ndq bs Cons u "2.prems" obtain a b c' d rest hi cp n
            where es: "es = a # b # c' # d # rest"
              and hi: "hex4 a b c' d = Some hi"
              and ls: "low_surrogate hi rest = Some (cp, n)"
            by (auto split: list.splits option.splits)
          show ?thesis
          proof (cases "n = 0")
            case True
            with ndq bs Cons u es hi ls "2.prems" "2.IH"(1) show ?thesis
              by fastforce
          next
            case False
            with ndq bs Cons u es hi ls "2.prems" obtain x1 x2 x3 x4 x5 x6 rest'
              where rest: "rest = x1 # x2 # x3 # x4 # x5 # x6 # rest'"
              by (auto split: list.splits)
            with False ndq bs Cons u es hi ls "2.prems" "2.IH"(2) show ?thesis
              by fastforce
          qed
        qed
      qed
    qed
  qed
qed

lemma int_part_length: "int_part s = Some (ds, r) \<Longrightarrow> length r < length s"
  by (auto simp: int_part_def less_Suc_eq_le length_dropWhile_le split: list.splits if_splits)

lemma frac_part_length: "frac_part s = (m, r) \<Longrightarrow> length r \<le> length s"
  by (auto simp: frac_part_def le_SucI length_dropWhile_le split: list.splits if_splits)

lemma exp_part_length: "exp_part s = (m, r) \<Longrightarrow> length r \<le> length s"
  by (auto simp: exp_part_def Let_def le_SucI length_dropWhile_le
      intro: le_trans [OF length_dropWhile_le] split: list.splits if_splits)

lemma scan_number_length: "scan_number lim s = Some (t, r) \<Longrightarrow> length r < length s"
proof -
  assume a: "scan_number lim s = Some (t, r)"
  obtain sign s1 where s1: "(case s of [] \<Rightarrow> ([], s)
      | c # cs \<Rightarrow> if c = CHR ''-'' then ([c], cs) else ([], s)) = (sign, s1)"
    by (cases "(case s of [] \<Rightarrow> ([], s)
      | c # cs \<Rightarrow> if c = CHR ''-'' then ([c], cs) else ([]::string, s))") auto
  then have l1: "length s1 \<le> length s"
    by (auto split: list.splits if_splits)
  from a s1 obtain ds s2 where ip: "int_part s1 = Some (ds, s2)"
    by (auto simp: scan_number_def split: option.splits)
  obtain fr s3 where fp: "frac_part s2 = (fr, s3)" by (cases "frac_part s2") auto
  obtain ex s4 where ep: "exp_part s3 = (ex, s4)" by (cases "exp_part s3") auto
  from a s1 ip fp ep have "r = s4"
    by (auto simp: scan_number_def split: if_splits)
  with int_part_length [OF ip] frac_part_length [OF fp] exp_part_length [OF ep] l1
  show ?thesis by simp
qed

lemma scan_literal_length:
  "scan_literal ns s = Some (t, r) \<Longrightarrow> \<forall>(n, v) \<in> set ns. n \<noteq> [] \<Longrightarrow> length r < length s"
proof (induction ns)
  case Nil
  then show ?case by simp
next
  case (Cons p ns)
  obtain n v where p: "p = (n, v)" by (cases p) auto
  show ?case
  proof (cases "take (length n) s = n")
    case True
    with Cons.prems p have r: "r = drop (length n) s" and "n \<noteq> []" by auto
    with True have "s \<noteq> []" by auto
    with r \<open>n \<noteq> []\<close> show ?thesis by (cases s; cases n) auto
  next
    case False
    with Cons p show ?thesis by auto
  qed
qed

lemma scan_atom_length: "scan_atom lim s = Some (t, r) \<Longrightarrow> length r < length s"
proof -
  assume a: "scan_atom lim s = Some (t, r)"
  show ?thesis
  proof (cases "scan_number lim s")
    case (Some x)
    with a have "scan_number lim s = Some (t, r)" by (simp add: scan_atom_def)
    then show ?thesis by (rule scan_number_length)
  next
    case None
    with a have "scan_literal literal_names s = Some (t, r)" by (simp add: scan_atom_def)
    moreover have "\<forall>(n, v) \<in> set literal_names. n \<noteq> []" by (simp add: literal_names_def)
    ultimately show ?thesis by (rule scan_literal_length)
  qed
qed

function lex :: "limits \<Rightarrow> string \<Rightarrow> token list" where
  "lex lim [] = []"
| "lex lim (c # cs) =
     (if is_ws c then lex lim cs
      else if c = CHR ''['' then LBracket # lex lim cs
      else if c = CHR '']'' then RBracket # lex lim cs
      else if c = CHR ''{'' then LBrace # lex lim cs
      else if c = CHR ''}'' then RBrace # lex lim cs
      else if c = CHR '','' then Comma # lex lim cs
      else if c = CHR '':'' then Colon # lex lim cs
      else if c = dq then
        (case scan_string cs of
           None \<Rightarrow> [Bad]
         | Some (s, rest) \<Rightarrow> Scalar (JStr s) # lex lim rest)
      else
        (case scan_atom lim (c # cs) of
           None \<Rightarrow> [Bad]
         | Some (t, rest) \<Rightarrow> t # lex lim rest))"
  by pat_completeness auto
termination
proof (relation "measure (\<lambda>(lim, s). length s)")
  fix lim :: limits and c :: char and cs x2 :: string and x :: "string \<times> string" and s
  assume "scan_string cs = Some x" "(s, x2) = x"
  then have "scan_string cs = Some (s, x2)" by simp
  from scan_string_length [OF this]
  show "((lim, x2), lim, c # cs) \<in> measure (\<lambda>(lim, s). length s)" by simp
next
  fix lim :: limits and c :: char and cs x2 :: string and x :: "token \<times> string" and t
  assume "scan_atom lim (c # cs) = Some x" "(t, x2) = x"
  then have "scan_atom lim (c # cs) = Some (t, x2)" by simp
  from scan_atom_length [OF this]
  show "((lim, x2), lim, c # cs) \<in> measure (\<lambda>(lim, s). length s)" by simp
qed auto

subsection \<open>The decoder\<close>

text \<open>
  Storing a key in a \<^verbatim>\<open>dict\<close>: a key already present keeps its place and gets the new value.
\<close>

fun dict_set :: "(string \<times> json) list \<Rightarrow> string \<Rightarrow> json \<Rightarrow> (string \<times> json) list" where
  "dict_set [] k v = [(k, v)]"
| "dict_set ((k', v') # kvs) k v =
     (if k' = k then (k', v) # kvs else (k', v') # dict_set kvs k v)"

text \<open>
  The decoder reads the tokens from left to right. Its state is the stack of the containers
  that are open, innermost first, each with what it holds so far and what it expects next;
  the empty stack expects the top-level value.
\<close>

datatype frame =
    ArrOpen
  | ArrVal "json list"
  | ArrNext "json list"
  | ObjOpen
  | ObjKey "(string \<times> json) list"
  | ObjColon "(string \<times> json) list" string
  | ObjVal "(string \<times> json) list" string
  | ObjNext "(string \<times> json) list"

datatype pstate = Parsing "frame list" | Finished json

fun wants_value :: "frame list \<Rightarrow> bool" where
  "wants_value [] = True"
| "wants_value (ArrOpen # fs) = True"
| "wants_value (ArrVal xs # fs) = True"
| "wants_value (ObjVal kvs k # fs) = True"
| "wants_value _ = False"

fun deliver :: "json \<Rightarrow> frame list \<Rightarrow> py_error + pstate" where
  "deliver v [] = Inr (Finished v)"
| "deliver v (ArrOpen # fs) = Inr (Parsing (ArrNext [v] # fs))"
| "deliver v (ArrVal xs # fs) = Inr (Parsing (ArrNext (xs @ [v]) # fs))"
| "deliver v (ObjVal kvs k # fs) = Inr (Parsing (ObjNext (dict_set kvs k v) # fs))"
| "deliver v _ = Inl JSONDecodeError"

definition open_container :: "limits \<Rightarrow> frame \<Rightarrow> frame list \<Rightarrow> py_error + pstate" where
  "open_container lim f fs =
     (if \<not> wants_value fs then Inl JSONDecodeError
      else if max_nesting lim \<le> length fs then Inl RecursionError
      else Inr (Parsing (f # fs)))"

fun step :: "limits \<Rightarrow> pstate \<Rightarrow> token \<Rightarrow> py_error + pstate" where
  "step lim (Finished v) t = Inl JSONDecodeError"
| "step lim (Parsing fs) Bad = Inl JSONDecodeError"
| "step lim (Parsing fs) BigInt =
     (if wants_value fs then Inl ValueError else Inl JSONDecodeError)"
| "step lim (Parsing fs) (Scalar v) =
     (case (fs, v) of
        (ObjOpen # fs', JStr k) \<Rightarrow> Inr (Parsing (ObjColon [] k # fs'))
      | (ObjKey kvs # fs', JStr k) \<Rightarrow> Inr (Parsing (ObjColon kvs k # fs'))
      | _ \<Rightarrow> deliver v fs)"
| "step lim (Parsing fs) LBracket = open_container lim ArrOpen fs"
| "step lim (Parsing fs) LBrace = open_container lim ObjOpen fs"
| "step lim (Parsing fs) RBracket =
     (case fs of
        ArrOpen # fs' \<Rightarrow> deliver (JArr []) fs'
      | ArrNext xs # fs' \<Rightarrow> deliver (JArr xs) fs'
      | _ \<Rightarrow> Inl JSONDecodeError)"
| "step lim (Parsing fs) RBrace =
     (case fs of
        ObjOpen # fs' \<Rightarrow> deliver (JObj []) fs'
      | ObjNext kvs # fs' \<Rightarrow> deliver (JObj kvs) fs'
      | _ \<Rightarrow> Inl JSONDecodeError)"
| "step lim (Parsing fs) Comma =
     (case fs of
        ArrNext xs # fs' \<Rightarrow> Inr (Parsing (ArrVal xs # fs'))
      | ObjNext kvs # fs' \<Rightarrow> Inr (Parsing (ObjKey kvs # fs'))
      | _ \<Rightarrow> Inl JSONDecodeError)"
| "step lim (Parsing fs) Colon =
     (case fs of
        ObjColon kvs k # fs' \<Rightarrow> Inr (Parsing (ObjVal kvs k # fs'))
      | _ \<Rightarrow> Inl JSONDecodeError)"

fun run :: "limits \<Rightarrow> pstate \<Rightarrow> token list \<Rightarrow> py_error + json" where
  "run lim st [] = (case st of Finished v \<Rightarrow> Inr v | Parsing fs \<Rightarrow> Inl JSONDecodeError)"
| "run lim st (t # ts) =
     (case step lim st t of
        Inl e \<Rightarrow> Inl e
      | Inr st' \<Rightarrow> run lim st' ts)"

text \<open>\<^verbatim>\<open>json.loads(s)\<close> with the default (strict) decoder.\<close>

definition json_loads :: "limits \<Rightarrow> string \<Rightarrow> py_error + json" where
  "json_loads lim s = run lim (Parsing []) (lex lim s)"

section \<open>The record repair parser\<close>

text \<open>\<^verbatim>\<open>json_str.replace("'", "\"")\<close>\<close>

fun replace_quotes :: "string \<Rightarrow> string" where
  "replace_quotes [] = []"
| "replace_quotes (c # cs) = (if c = sq then dq else c) # replace_quotes cs"

text \<open>
  \<^verbatim>\<open>parse_json_string\<close>, lines 40-55. The argument is the cell the caller read from the row.
  Only \<^verbatim>\<open>str\<close> has a \<^verbatim>\<open>replace\<close> method: on any other cell the attribute access raises
  \<^verbatim>\<open>AttributeError\<close>. The \<^verbatim>\<open>except\<close> clause names \<^verbatim>\<open>json.JSONDecodeError\<close> only, so every
  other exception leaves the function.
\<close>

definition parse_json_string :: "limits \<Rightarrow> cell \<Rightarrow> py_error + json" where
  "parse_json_string lim json_str =
     (case json_str of
        StrCell s \<Rightarrow>
          (case json_loads lim (replace_quotes s) of
             Inr v \<Rightarrow> Inr v
           | Inl JSONDecodeError \<Rightarrow> Inr (JArr [])
           | Inl e \<Rightarrow> Inl e)
      | _ \<Rightarrow> Inl AttributeError)"

section \<open>The row loop\<close>

text \<open>
  \<^verbatim>\<open>for x in data\<close>: a list yields its elements, a \<^verbatim>\<open>dict\<close> its keys, a \<^verbatim>\<open>str\<close> its characters
  (one per byte here; the loop body fails on the first of them whatever it is), and
  nothing else can be iterated.
\<close>

fun py_iter :: "json \<Rightarrow> py_error + json list" where
  "py_iter (JArr xs) = Inr xs"
| "py_iter (JObj kvs) = Inr (map (\<lambda>(k, v). JStr k) kvs)"
| "py_iter (JStr s) = Inr (map (\<lambda>c. JStr [c]) s)"
| "py_iter _ = Inl TypeError"

text \<open>\<^verbatim>\<open>x[key]\<close> with a \<^verbatim>\<open>str\<close> key: only a \<^verbatim>\<open>dict\<close> accepts it.\<close>

fun py_getitem :: "json \<Rightarrow> string \<Rightarrow> py_error + json" where
  "py_getitem (JObj kvs) k =
     (case map_of kvs k of None \<Rightarrow> Inl (KeyError k) | Some v \<Rightarrow> Inr v)"
| "py_getitem _ k = Inl TypeError"

type_synonym entity = "json \<times> json"
type_synonym assoc = "cell \<times> json"

datatype log_line = RowError cell py_error

text \<open>
  The four lists of lines 98-101 and the lines printed by the handler of line 124.
  An entity is the pair of its id and its name, an association the pair of the movie id
  and the entity id.
\<close>

record accum =
  production_companies_list :: "entity list"
  genres_list :: "entity list"
  movie_genres_list :: "assoc list"
  movie_production_companies_list :: "assoc list"
  log_lines :: "log_line list"

definition init_accum :: accum where
  "init_accum =
     \<lparr>production_companies_list = [], genres_list = [], movie_genres_list = [],
      movie_production_companies_list = [], log_lines = []\<rparr>"

text \<open>Lines 111-112 (and 119-120): the two subscriptions, \<^verbatim>\<open>'id'\<close> first.\<close>

definition entity_of :: "json \<Rightarrow> py_error + entity" where
  "entity_of g =
     (case py_getitem g ''id'' of
        Inl e \<Rightarrow> Inl e
      | Inr i \<Rightarrow>
          (case py_getitem g ''name'' of
             Inl e \<Rightarrow> Inl e
           | Inr n \<Rightarrow> Inr (i, n)))"

text \<open>
  The inner loop, lines 110-114 (and 118-122). Both lists grow at each element; an exception
  leaves them as they are at that moment, so the function returns the lists together with
  the exception, if any.
\<close>

fun for_entities ::
  "cell \<Rightarrow> json list \<Rightarrow> entity list \<times> assoc list \<Rightarrow> (entity list \<times> assoc list) \<times> py_error option"
where
  "for_entities movie_id [] acc = (acc, None)"
| "for_entities movie_id (g # gs) (ents, assocs) =
     (case entity_of g of
        Inl e \<Rightarrow> ((ents, assocs), Some e)
      | Inr (i, n) \<Rightarrow> for_entities movie_id gs (ents @ [(i, n)], assocs @ [(movie_id, i)]))"

text \<open>
  A data frame: its column names and its rows. \<^verbatim>\<open>row[name]\<close> raises \<^verbatim>\<open>KeyError\<close> when the
  frame has no such column; a row shorter than the header has missing cells at its end.
\<close>

type_synonym row = "cell list"

record dataframe =
  columns :: "string list"
  rows :: "row list"

fun row_getitem :: "string list \<Rightarrow> row \<Rightarrow> string \<Rightarrow> py_error + cell" where
  "row_getitem [] r name = Inl (KeyError name)"
| "row_getitem (c # cs) [] name = (if c = name then Inr NaN else row_getitem cs [] name)"
| "row_getitem (c # cs) (v # vs) name = (if c = name then Inr v else row_getitem cs vs name)"

text \<open>
  One embedded field: lines 109-114 for \<^verbatim>\<open>genres\<close>, lines 117-122 for
  \<^verbatim>\<open>production_companies\<close>; the two blocks differ in the names only. \<open>field_items\<close> is what
  the \<^verbatim>\<open>for\<close> statement iterates over: the cell is read, parsed, and asked for its elements.
\<close>

definition field_items :: "limits \<Rightarrow> string list \<Rightarrow> row \<Rightarrow> string \<Rightarrow> py_error + json list" where
  "field_items lim cols r field =
     (case row_getitem cols r field of
        Inl e \<Rightarrow> Inl e
      | Inr c \<Rightarrow>
          (case parse_json_string lim c of
             Inl e \<Rightarrow> Inl e
           | Inr data \<Rightarrow> py_iter data))"

definition process_field ::
  "limits \<Rightarrow> string list \<Rightarrow> row \<Rightarrow> string \<Rightarrow> cell \<Rightarrow> entity list \<times> assoc list
     \<Rightarrow> (entity list \<times> assoc list) \<times> py_error option"
where
  "process_field lim cols r field movie_id acc =
     (case field_items lim cols r field of
        Inl e \<Rightarrow> (acc, Some e)
      | Inr items \<Rightarrow> for_entities movie_id items acc)"

text \<open>The body of the \<^verbatim>\<open>try\<close>, lines 106-122: the state it leaves and the exception, if any.\<close>

definition try_body :: "limits \<Rightarrow> string list \<Rightarrow> row \<Rightarrow> accum \<Rightarrow> accum \<times> py_error option" where
  "try_body lim cols r st =
     (case row_getitem cols r ''id'' of
        Inl e \<Rightarrow> (st, Some e)
      | Inr movie_id \<Rightarrow>
          (case process_field lim cols r ''genres'' movie_id
                  (genres_list st, movie_genres_list st) of
             ((g, mg), Some e) \<Rightarrow> (st\<lparr>genres_list := g, movie_genres_list := mg\<rparr>, Some e)
           | ((g, mg), None) \<Rightarrow>
               (case process_field lim cols r ''production_companies'' movie_id
                       (production_companies_list st, movie_production_companies_list st) of
                  ((pc, mpc), err) \<Rightarrow>
                    (st\<lparr>genres_list := g, movie_genres_list := mg,
                        production_companies_list := pc,
                        movie_production_companies_list := mpc\<rparr>, err))))"

text \<open>
  One iteration, lines 105-124. The handler formats \<^verbatim>\<open>row['id']\<close> into the line it prints;
  that subscription is outside the \<^verbatim>\<open>try\<close>, so its exception leaves the loop.
\<close>

definition process_row :: "limits \<Rightarrow> string list \<Rightarrow> row \<Rightarrow> accum \<Rightarrow> py_error + accum" where
  "process_row lim cols r st =
     (case try_body lim cols r st of
        (st', None) \<Rightarrow> Inr st'
      | (st', Some e) \<Rightarrow>
          (case row_getitem cols r ''id'' of
             Inl e' \<Rightarrow> Inl e'
           | Inr movie_id \<Rightarrow> Inr (st'\<lparr>log_lines := log_lines st' @ [RowError movie_id e]\<rparr>)))"

fun iterrows :: "limits \<Rightarrow> string list \<Rightarrow> row list \<Rightarrow> accum \<Rightarrow> py_error + accum" where
  "iterrows lim cols [] st = Inr st"
| "iterrows lim cols (r # rs) st =
     (case process_row lim cols r st of
        Inl e \<Rightarrow> Inl e
      | Inr st' \<Rightarrow> iterrows lim cols rs st')"

section \<open>The exported tables\<close>

text \<open>
  \<^verbatim>\<open>DataFrame.duplicated(keep='first')\<close>: a row is marked when its key has been seen in an
  earlier row. \<^verbatim>\<open>drop_duplicates\<close> keeps the rows that are not marked.
\<close>

fun duplicated :: "'k list \<Rightarrow> 'k list \<Rightarrow> bool list" where
  "duplicated seen [] = []"
| "duplicated seen (k # ks) = (k \<in> set seen) # duplicated (k # seen) ks"

definition drop_duplicates_by :: "('a \<Rightarrow> 'k) \<Rightarrow> 'a list \<Rightarrow> 'a list" where
  "drop_duplicates_by key xs =
     map fst (filter (\<lambda>(x, dup). \<not> dup) (zip xs (duplicated [] (map key xs))))"

text \<open>
  \<^verbatim>\<open>pd.DataFrame(xs)\<close> on a list of two-key dictionaries. pandas gives each column one dtype
  and converts the values of the column to it: an integer beside a float or a null becomes
  a float, a null beside numbers becomes \<^verbatim>\<open>NaN\<close>, and so on. What a value becomes depends on
  the column it stands in. The conversion belongs to pandas and is a parameter here:
  \<open>conv column v\<close> is the cell that holds \<open>v\<close> in the frame column built from \<open>column\<close>, and two
  cells are equal exactly when \<^verbatim>\<open>duplicated\<close> takes them for the same value.
\<close>

type_synonym ('a, 'x) conversion = "'a list \<Rightarrow> 'a \<Rightarrow> 'x"

definition data_frame ::
  "('a, 'x) conversion \<Rightarrow> ('b, 'y) conversion \<Rightarrow> ('a \<times> 'b) list \<Rightarrow> ('x \<times> 'y) list"
where
  "data_frame conv_a conv_b xs =
     map (\<lambda>(a, b). (conv_a (map fst xs) a, conv_b (map snd xs) b)) xs"

text \<open>
  A column that holds only integers of at most 64 bits, or only strings, keeps its values
  as they were recorded. \<open>as_recorded\<close> is the conversion on such columns, and it is used on
  such columns only.
\<close>

definition as_recorded :: "('a, 'a) conversion" where
  "as_recorded column v = v"

text \<open>
  \<^verbatim>\<open>pd.DataFrame(xs).drop_duplicates()\<close>: whole rows of the frame are compared.
  The values are hashed, so a list or a dictionary in a cell raises \<^verbatim>\<open>TypeError\<close>; the frame
  of an empty list has no rows and no columns and is returned as it is.
\<close>

fun hashable :: "json \<Rightarrow> bool" where
  "hashable (JArr xs) = False"
| "hashable (JObj kvs) = False"
| "hashable _ = True"

definition drop_duplicates ::
  "('a \<times> 'b \<Rightarrow> bool) \<Rightarrow> ('a, 'x) conversion \<Rightarrow> ('b, 'y) conversion \<Rightarrow> ('a \<times> 'b) list
     \<Rightarrow> py_error + ('x \<times> 'y) list"
where
  "drop_duplicates row_hashable conv_a conv_b xs =
     (if xs = [] then Inr []
      else if list_all row_hashable xs
        then Inr (drop_duplicates_by (\<lambda>x. x) (data_frame conv_a conv_b xs))
      else Inl TypeError)"

text \<open>\<^verbatim>\<open>set_index(name)\<close> on such a frame: the frame of an empty list has no column to take.\<close>

definition set_index :: "string \<Rightarrow> 'a list \<Rightarrow> py_error + 'a list" where
  "set_index name xs = (if xs = [] then Inl (KeyError name) else Inr xs)"

text \<open>
  Lines 127-128 and 129-130. The id and the name of an entity table are columns of decoded
  values; the movie id of a bridge table is a column of cells of the source frame.
\<close>

definition entity_frame ::
  "string \<Rightarrow> (json, 'v) conversion \<Rightarrow> entity list \<Rightarrow> py_error + ('v \<times> 'v) list"
where
  "entity_frame index_name conv es =
     (case drop_duplicates (\<lambda>(i, n). hashable i \<and> hashable n) conv conv es of
        Inl e \<Rightarrow> Inl e
      | Inr es' \<Rightarrow> set_index index_name es')"

definition bridge_frame ::
  "(cell, 'c) conversion \<Rightarrow> (json, 'v) conversion \<Rightarrow> assoc list \<Rightarrow> py_error + ('c \<times> 'v) list"
where
  "bridge_frame conv_id conv ps = drop_duplicates (\<lambda>(m, i). hashable i) conv_id conv ps"

text \<open>
  The fact table, lines 134-137. \<open>dt_year\<close> stands for
  \<^verbatim>\<open>pd.to_datetime(column, errors='coerce').dt.year\<close>, a function of the whole column that
  belongs to pandas: it is a parameter here.
\<close>

record fact_row =
  movie_id :: cell
  title :: cell
  release_date :: cell
  budget :: cell
  revenue :: cell
  popularity :: cell
  year :: cell

definition fact_columns :: "string list" where
  "fact_columns = [''id'', ''title'', ''release_date'', ''budget'', ''revenue'', ''popularity'']"

definition cell_at :: "string list \<Rightarrow> row \<Rightarrow> string \<Rightarrow> cell" where
  "cell_at cols r name = (case row_getitem cols r name of Inl e \<Rightarrow> NaN | Inr c \<Rightarrow> c)"

definition fact_of :: "string list \<Rightarrow> cell list \<Rightarrow> nat \<times> row \<Rightarrow> fact_row" where
  "fact_of cols years ir =
     (case ir of
        (i, r) \<Rightarrow>
          \<lparr>movie_id = cell_at cols r ''id'', title = cell_at cols r ''title'',
           release_date = cell_at cols r ''release_date'', budget = cell_at cols r ''budget'',
           revenue = cell_at cols r ''revenue'', popularity = cell_at cols r ''popularity'',
           year = (if i < length years then years ! i else NaN)\<rparr>)"

definition movies_frame ::
  "(cell list \<Rightarrow> py_error + cell list) \<Rightarrow> dataframe \<Rightarrow> py_error + fact_row list"
where
  "movies_frame dt_year df =
     (case find (\<lambda>c. c \<notin> set (columns df)) fact_columns of
        Some c \<Rightarrow> Inl (KeyError c)
      | None \<Rightarrow>
          (case dt_year (map (\<lambda>r. cell_at (columns df) r ''release_date'') (rows df)) of
             Inl e \<Rightarrow> Inl e
           | Inr years \<Rightarrow>
               Inr (drop_duplicates_by movie_id
                      (map (fact_of (columns df) years) (enumerate 0 (rows df))))))"

record ('c, 'v) tables =
  movies :: "fact_row list"
  production_companies :: "('v \<times> 'v) list"
  genres :: "('v \<times> 'v) list"
  movie_genres :: "('c \<times> 'v) list"
  movie_production_companies :: "('c \<times> 'v) list"

text \<open>
  \<^verbatim>\<open>main\<close> from the data frame of line 93 to the five frames written at lines 143-147.
  \<open>Inl\<close> is an exception that reaches the handler of line 175: nothing is exported.
\<close>

definition main ::
  "limits \<Rightarrow> (cell, 'c) conversion \<Rightarrow> (json, 'v) conversion \<Rightarrow>
     (cell list \<Rightarrow> py_error + cell list) \<Rightarrow> dataframe \<Rightarrow> py_error + ('c, 'v) tables"
where
  "main lim conv_id conv dt_year movies_df =
     (case iterrows lim (columns movies_df) (rows movies_df) init_accum of
        Inl e \<Rightarrow> Inl e
      | Inr st \<Rightarrow>
     (case entity_frame ''company_id'' conv (production_companies_list st) of
        Inl e \<Rightarrow> Inl e
      | Inr production_companies_df \<Rightarrow>
     (case entity_frame ''genre_id'' conv (genres_list st) of
        Inl e \<Rightarrow> Inl e
      | Inr genres_df \<Rightarrow>
     (case bridge_frame conv_id conv (movie_genres_list st) of
        Inl e \<Rightarrow> Inl e
      | Inr movie_genres_df \<Rightarrow>
     (case bridge_frame conv_id conv (movie_production_companies_list st) of
        Inl e \<Rightarrow> Inl e
      | Inr movie_production_companies_df \<Rightarrow>
     (case movies_frame dt_year movies_df of
        Inl e \<Rightarrow> Inl e
      | Inr movies_df' \<Rightarrow>
          Inr \<lparr>movies = movies_df', production_companies = production_companies_df,
               genres = genres_df, movie_genres = movie_genres_df,
               movie_production_companies = movie_production_companies_df\<rparr>))))))"


section \<open>Sample frames\<close>

text \<open>
  Frames with the eight columns the pipeline reads. Every \<^verbatim>\<open>release_date\<close> is missing, so that
  \<open>dt_year_no_dates\<close> is the date coercion on them; ids are small integers and names are
  strings, so that \<open>as_recorded\<close> is the conversion of their columns. The second entity of \<open>heat\<close> lacks its
  \<^verbatim>\<open>name\<close>; \<open>toy_story_again\<close> repeats the id of \<open>toy_story\<close>, names genre 16 differently and
  lists an entity twice.
\<close>

definition movie_columns :: "string list" where
  "movie_columns =
     [''id'', ''title'', ''release_date'', ''budget'', ''revenue'', ''popularity'',
      ''genres'', ''production_companies'']"

definition toy_story :: row where
  \<open>toy_story =
     [IntCell 862, StrCell ''Toy Story'', NaN, IntCell 30000000, IntCell 373554033, IntCell 21,
      StrCell ''[{\'id\': 16, \'name\': \'Animation\'}]'',
      StrCell ''[{\'id\': 3, \'name\': \'Pixar\'}]'']\<close>

definition heat :: row where
  \<open>heat =
     [IntCell 949, StrCell ''Heat'', NaN, IntCell 60000000, IntCell 187436818, IntCell 17,
      StrCell ''[{\'id\': 28, \'name\': \'Action\'}, {\'id\': 80}, {\'id\': 18, \'name\': \'Drama\'}]'',
      StrCell ''[{\'id\': 508, \'name\': \'Regency\'}]'']\<close>

definition toy_story_again :: row where
  \<open>toy_story_again =
     [IntCell 862, StrCell ''Toy Story 2'', NaN, IntCell 90000000, IntCell 497366869, IntCell 17,
      StrCell ''[{\'id\': 16, \'name\': \'Cartoon\'}, {\'id\': 16, \'name\': \'Animation\'}, {\'id\': 16, \'name\': \'Cartoon\'}]'',
      StrCell ''[{\'id\': 3, \'name\': \'Pixar\'}]'']\<close>




text \<open>
  \<open>jumanji\<close> has a well-formed \<^verbatim>\<open>genres\<close> cell and a second company without \<^verbatim>\<open>id\<close>;
  \<open>casino\<close> has a well-formed \<^verbatim>\<open>genres\<close> cell and no \<^verbatim>\<open>production_companies\<close> cell.
  The frame of \<open>no_id_columns\<close> has no \<^verbatim>\<open>id\<close> column. \<open>heat_accum\<close> is what the loop body leaves
  after \<open>heat\<close>, started from the empty lists (lemma \<open>process_row_heat\<close>).
\<close>

definition jumanji :: row where
  \<open>jumanji =
     [IntCell 8844, StrCell ''Jumanji'', NaN, IntCell 65000000, IntCell 262797249, IntCell 17,
      StrCell ''[{\'id\': 12, \'name\': \'Adventure\'}]'',
      StrCell ''[{\'id\': 559, \'name\': \'TriStar\'}, {\'name\': \'Teitler\'}]'']\<close>

definition casino :: row where
  \<open>casino =
     [IntCell 524, StrCell ''Casino'', NaN, IntCell 52000000, IntCell 116112375, IntCell 10,
      StrCell ''[{\'id\': 18, \'name\': \'Drama\'}]'', NaN]\<close>

definition no_id_columns :: "string list" where
  "no_id_columns = [''title'', ''genres'', ''production_companies'']"

definition heat_no_id :: row where
  \<open>heat_no_id =
     [StrCell ''Heat'',
      StrCell ''[{\'id\': 28, \'name\': \'Action\'}]'',
      StrCell ''[{\'id\': 508, \'name\': \'Regency\'}]'']\<close>

definition toy_story_no_id :: row where
  \<open>toy_story_no_id =
     [StrCell ''Toy Story'',
      StrCell ''[{\'id\': 16, \'name\': \'Animation\'}]'',
      StrCell ''[{\'id\': 3, \'name\': \'Pixar\'}]'']\<close>

definition heat_accum :: accum where
  "heat_accum =
     \<lparr>production_companies_list = [], genres_list = [(JInt 28, JStr ''Action'')],
      movie_genres_list = [(IntCell 949, JInt 28)], movie_production_companies_list = [],
      log_lines = [RowError (IntCell 949) (KeyError ''name'')]\<rparr>"

text \<open>A row whose \<^verbatim>\<open>genres\<close> cell holds the given text; it has no companies.\<close>

definition row_with_genres :: "string \<Rightarrow> row" where
  "row_with_genres g =
     [IntCell 1, StrCell ''Untitled'', NaN, NaN, NaN, NaN, StrCell g, StrCell ''[]'']"

text \<open>
  A frame with dates: one that can be read, one that cannot, and one that is missing. The
  third row also has no company list.
\<close>

definition with_release_date :: "cell \<Rightarrow> row \<Rightarrow> row" where
  "with_release_date d r = r[2 := d]"

definition dated_frame :: dataframe where
  "dated_frame =
     \<lparr>columns = movie_columns,
      rows = [with_release_date (StrCell ''1995-10-30'') toy_story,
              with_release_date (StrCell ''soon'') jumanji, casino]\<rparr>"

definition dated_tables :: "(cell, json) tables" where
  "dated_tables =
     \<lparr>movies =
        [\<lparr>movie_id = IntCell 862, title = StrCell ''Toy Story'',
          release_date = StrCell ''1995-10-30'', budget = IntCell 30000000,
          revenue = IntCell 373554033, popularity = IntCell 21, year = IntCell 1995\<rparr>,
         \<lparr>movie_id = IntCell 8844, title = StrCell ''Jumanji'',
          release_date = StrCell ''soon'', budget = IntCell 65000000,
          revenue = IntCell 262797249, popularity = IntCell 17, year = NaN\<rparr>,
         \<lparr>movie_id = IntCell 524, title = StrCell ''Casino'',
          release_date = NaN, budget = IntCell 52000000,
          revenue = IntCell 116112375, popularity = IntCell 10, year = NaN\<rparr>],
      production_companies = [(JInt 3, JStr ''Pixar''), (JInt 559, JStr ''TriStar'')],
      genres = [(JInt 16, JStr ''Animation''), (JInt 12, JStr ''Adventure''),
                (JInt 18, JStr ''Drama'')],
      movie_genres = [(IntCell 862, JInt 16), (IntCell 8844, JInt 12), (IntCell 524, JInt 18)],
      movie_production_companies = [(IntCell 862, JInt 3), (IntCell 8844, JInt 559)]\<rparr>"

section \<open>Specification vocabulary\<close>


text \<open>
  Modelled from the spec: the year coercion. The pipeline leaves it to pandas
  (\<^verbatim>\<open>pd.to_datetime(movies_df['release_date'], errors='coerce').dt.year\<close>), whose code is not
  in this repository; the specification gives its contract: a release date that can be read
  as a date yields its year, any other yields an absent year, and nothing is raised.
  \<open>date_year\<close> says which cells of a column can be read as dates, and with which year; it
  sees the whole column, since pandas may settle the format of a column from its first date.
  \<open>coerce_year\<close> is the year of one cell under such a reading, and \<open>to_datetime_year\<close> the
  coercion of a column, which always returns. The year is held as the number it is, whether
  pandas stores the column as integers or, beside a missing year, as floats.
\<close>

type_synonym date_reader = "cell list \<Rightarrow> cell \<Rightarrow> int option"

definition coerce_year :: "(cell \<Rightarrow> int option) \<Rightarrow> cell \<Rightarrow> cell" where
  "coerce_year read_year c = (case read_year c of None \<Rightarrow> NaN | Some y \<Rightarrow> IntCell y)"

definition to_datetime_year :: "date_reader \<Rightarrow> cell list \<Rightarrow> py_error + cell list" where
  "to_datetime_year date_year column = Inr (map (coerce_year (date_year column)) column)"

text \<open>
  Modelled from the spec: a reader for dates written as in the specification's example,
  \<^verbatim>\<open>1995-10-30\<close>: a year of four digits, a month of two and a day of two, separated by
  hyphens, with a month from 1 to 12 and a day that this month has in this year. The year
  it reads is the four-digit component. A cell that holds no text, the empty date of the
  CSV file among them, has no date to read. The reader is for columns of text and of
  missing cells, and is used on such columns only.
\<close>

definition leap_year :: "nat \<Rightarrow> bool" where
  "leap_year y \<longleftrightarrow> y mod 400 = 0 \<or> (y mod 4 = 0 \<and> y mod 100 \<noteq> 0)"

definition days_in_month :: "nat \<Rightarrow> nat \<Rightarrow> nat" where
  "days_in_month y m =
     (if m = 2 then (if leap_year y then 29 else 28)
      else if m \<in> {4, 6, 9, 11} then 30
      else 31)"

definition digits_value :: "string \<Rightarrow> nat option" where
  "digits_value ds =
     (if ds \<noteq> [] \<and> list_all is_digit ds
      then Some (foldl (\<lambda>n c. 10 * n + digit_val c) 0 ds)
      else None)"

definition iso_year :: "string \<Rightarrow> int option" where
  "iso_year s =
     (if length s = 10 \<and> s ! 4 = CHR ''-'' \<and> s ! 7 = CHR ''-'' then
        (case (digits_value (take 4 s), digits_value (take 2 (drop 5 s)),
               digits_value (drop 8 s)) of
           (Some y, Some m, Some d) \<Rightarrow>
             if 1 \<le> m \<and> m \<le> 12 \<and> 1 \<le> d \<and> d \<le> days_in_month y m then Some (int y)
             else None
         | _ \<Rightarrow> None)
      else None)"

definition iso_date_year :: date_reader where
  "iso_date_year column c = (case c of StrCell s \<Rightarrow> iso_year s | _ \<Rightarrow> None)"

section \<open>Lemmas about the decoder\<close>

lemma replace_quotes_map:
  "replace_quotes s = map (\<lambda>c. if c = CHR 0x27 then CHR 0x22 else c) s"
  by (induction s) (simp_all add: sq_def dq_def)

lemma deliver_errors: "deliver v fs = Inl e \<Longrightarrow> e = JSONDecodeError"
  by (induction v fs rule: deliver.induct) simp_all

lemma open_container_errors:
  "open_container lim f fs = Inl e \<Longrightarrow> e = JSONDecodeError \<or> e = RecursionError"
  by (auto simp: open_container_def split: if_splits)

lemma step_errors:
  "step lim st t = Inl e \<Longrightarrow> e = JSONDecodeError \<or> e = ValueError \<or> e = RecursionError"
proof (induction lim st t rule: step.induct)
  case (4 lim fs v)
  then show ?case
    by (auto dest: deliver_errors split: list.splits frame.splits json.splits)
next
  case (7 lim fs)
  then show ?case by (auto dest: deliver_errors split: list.splits frame.splits)
next
  case (8 lim fs)
  then show ?case by (auto dest: deliver_errors split: list.splits frame.splits)
qed (auto dest: open_container_errors split: if_splits list.splits frame.splits)

lemma run_errors:
  "run lim st ts = Inl e \<Longrightarrow> e = JSONDecodeError \<or> e = ValueError \<or> e = RecursionError"
proof (induction ts arbitrary: st)
  case Nil
  then show ?case by (cases st) simp_all
next
  case (Cons t ts)
  show ?case
  proof (cases "step lim st t")
    case (Inl e')
    with Cons.prems have "e' = e" by simp
    with Inl show ?thesis by (auto dest: step_errors)
  next
    case (Inr st')
    with Cons.prems have "run lim st' ts = Inl e" by simp
    then show ?thesis by (rule Cons.IH)
  qed
qed

lemma json_loads_errors:
  "json_loads lim s = Inl e \<Longrightarrow> e = JSONDecodeError \<or> e = ValueError \<or> e = RecursionError"
  unfolding json_loads_def by (rule run_errors)

section \<open>Deduplication lemmas\<close>

text \<open>\<open>dd_from\<close> is \<open>drop_duplicates_by\<close> started with keys already seen.\<close>

definition dd_from :: "('a \<Rightarrow> 'k) \<Rightarrow> 'k list \<Rightarrow> 'a list \<Rightarrow> 'a list" where
  "dd_from key seen xs =
     map fst (filter (\<lambda>(x, dup). \<not> dup) (zip xs (duplicated seen (map key xs))))"

lemma dd_from_Nil [simp]: "dd_from key seen [] = []"
  by (simp add: dd_from_def)

lemma duplicated_set: "set s1 = set s2 \<Longrightarrow> duplicated s1 ks = duplicated s2 ks"
  by (induction ks arbitrary: s1 s2) auto

lemma dd_from_Cons [simp]:
  "dd_from key seen (x # xs) =
     (if key x \<in> set seen then dd_from key seen xs else x # dd_from key (key x # seen) xs)"
proof (cases "key x \<in> set seen")
  case True
  then have "set (key x # seen) = set seen" by auto
  from duplicated_set [OF this] True show ?thesis by (simp add: dd_from_def)
next
  case False
  then show ?thesis by (simp add: dd_from_def)
qed

lemma drop_duplicates_by_dd: "drop_duplicates_by key xs = dd_from key [] xs"
  by (simp add: drop_duplicates_by_def dd_from_def)

lemma dd_from_keys: "key ` set (dd_from key seen xs) = key ` set xs - set seen"
  by (induction xs arbitrary: seen) auto

lemma dd_from_subset: "set (dd_from key seen xs) \<subseteq> set xs"
  by (induction xs arbitrary: seen) auto





section \<open>Loop lemmas\<close>

lemma for_entities_ok:
  "map entity_of items = map Inr es \<Longrightarrow>
   for_entities mid items (ents, assocs) =
     ((ents @ es, assocs @ map (\<lambda>(i, n). (mid, i)) es), None)"
proof (induction items arbitrary: es ents assocs)
  case Nil
  then show ?case by simp
next
  case (Cons g gs)
  then obtain en es' where es: "es = en # es'" and g: "entity_of g = Inr en"
    and gs: "map entity_of gs = map Inr es'"
    by (cases es) auto
  obtain i n where en: "en = (i, n)" by (cases en) auto
  from Cons.IH [OF gs, of "ents @ [(i, n)]" "assocs @ [(mid, i)]"] es g en
  show ?case by simp
qed

lemma for_entities_fail:
  "k < length items \<Longrightarrow> map entity_of (take k items) = map Inr es \<Longrightarrow>
   entity_of (items ! k) = Inl e \<Longrightarrow>
   for_entities mid items (ents, assocs) =
     ((ents @ es, assocs @ map (\<lambda>(i, n). (mid, i)) es), Some e)"
proof (induction items arbitrary: k es ents assocs)
  case Nil
  then show ?case by simp
next
  case (Cons g gs)
  show ?case
  proof (cases k)
    case 0
    with Cons.prems show ?thesis by simp
  next
    case (Suc k')
    with Cons.prems obtain en es' where es: "es = en # es'" and g: "entity_of g = Inr en"
      and gs: "map entity_of (take k' gs) = map Inr es'"
      by (cases es) auto
    obtain i n where en: "en = (i, n)" by (cases en) auto
    from Suc Cons.prems have k': "k' < length gs" and bad: "entity_of (gs ! k') = Inl e"
      by simp_all
    from Cons.IH [OF k' gs bad, of "ents @ [(i, n)]" "assocs @ [(mid, i)]"] es g en
    show ?thesis by simp
  qed
qed

lemma for_entities_paired:
  "for_entities mid items (ents, assocs) = ((ents', assocs'), err) \<Longrightarrow>
   map snd assocs = map fst ents \<Longrightarrow> map snd assocs' = map fst ents'"
proof (induction items arbitrary: ents assocs)
  case Nil
  then show ?case by simp
next
  case (Cons g gs)
  show ?case
  proof (cases "entity_of g")
    case (Inl e)
    with Cons.prems show ?thesis by simp
  next
    case (Inr en)
    obtain i n where en: "en = (i, n)" by (cases en) auto
    with Inr Cons.prems(1)
    have "for_entities mid gs (ents @ [(i, n)], assocs @ [(mid, i)]) = ((ents', assocs'), err)"
      by simp
    from Cons.IH [OF this] Cons.prems(2) show ?thesis by simp
  qed
qed

lemma process_field_paired:
  "process_field lim cols r field mid (ents, assocs) = ((ents', assocs'), err) \<Longrightarrow>
   map snd assocs = map fst ents \<Longrightarrow> map snd assocs' = map fst ents'"
  by (auto simp: process_field_def dest: for_entities_paired split: sum.splits)

definition paired :: "accum \<Rightarrow> bool" where
  "paired st \<longleftrightarrow>
     map snd (movie_genres_list st) = map fst (genres_list st) \<and>
     map snd (movie_production_companies_list st) = map fst (production_companies_list st)"

lemma try_body_paired:
  assumes "try_body lim cols r st = (st', err)" and "paired st"
  shows "paired st'"
proof (cases "row_getitem cols r ''id''")
  case (Inl e)
  with assms show ?thesis by (simp add: try_body_def)
next
  case (Inr mid)
  obtain g mg ge where pg: "process_field lim cols r ''genres'' mid
      (genres_list st, movie_genres_list st) = ((g, mg), ge)"
    by (metis surj_pair)
  from process_field_paired [OF pg] assms(2) have gp: "map snd mg = map fst g"
    by (simp add: paired_def)
  show ?thesis
  proof (cases ge)
    case (Some e)
    with Inr pg assms gp show ?thesis by (auto simp: try_body_def paired_def)
  next
    case None
    obtain pc mpc pe where pp: "process_field lim cols r ''production_companies'' mid
        (production_companies_list st, movie_production_companies_list st) = ((pc, mpc), pe)"
      by (metis surj_pair)
    from process_field_paired [OF pp] assms(2) have "map snd mpc = map fst pc"
      by (simp add: paired_def)
    with None Inr pg pp assms gp show ?thesis by (auto simp: try_body_def paired_def)
  qed
qed

lemma process_row_paired:
  assumes "process_row lim cols r st = Inr st'" and "paired st"
  shows "paired st'"
proof -
  obtain st1 err where tb: "try_body lim cols r st = (st1, err)" by (metis surj_pair)
  from try_body_paired [OF tb assms(2)] have "paired st1" .
  with tb assms(1) show ?thesis
    by (auto simp: process_row_def paired_def split: option.splits sum.splits)
qed

lemma iterrows_paired:
  "iterrows lim cols rs st = Inr st' \<Longrightarrow> paired st \<Longrightarrow> paired st'"
proof (induction rs arbitrary: st)
  case Nil
  then show ?case by simp
next
  case (Cons r rs)
  then obtain st1 where r: "process_row lim cols r st = Inr st1"
    and rs: "iterrows lim cols rs st1 = Inr st'"
    by (auto split: sum.splits)
  from Cons.IH [OF rs process_row_paired [OF r Cons.prems(2)]] show ?case .
qed

lemma row_getitem_present:
  "name \<in> set cols \<Longrightarrow> \<exists>c. row_getitem cols r name = Inr c"
  by (induction cols r name rule: row_getitem.induct) auto

lemma row_getitem_absent:
  "name \<notin> set cols \<Longrightarrow> row_getitem cols r name = Inl (KeyError name)"
  by (induction cols r name rule: row_getitem.induct) auto

section \<open>Lemmas about the exported tables\<close>



lemma drop_duplicates_by_keys: "key ` set (drop_duplicates_by key xs) = key ` set xs"
  by (simp add: drop_duplicates_by_dd dd_from_keys)






lemma main_Inr:
  assumes "main lim conv_id conv dt df = Inr out"
  obtains st where "iterrows lim (columns df) (rows df) init_accum = Inr st"
    and "entity_frame ''company_id'' conv (production_companies_list st) =
      Inr (production_companies out)"
    and "entity_frame ''genre_id'' conv (genres_list st) = Inr (genres out)"
    and "bridge_frame conv_id conv (movie_genres_list st) = Inr (movie_genres out)"
    and "bridge_frame conv_id conv (movie_production_companies_list st) =
      Inr (movie_production_companies out)"
    and "movies_frame dt df = Inr (movies out)"
  using assms by (auto simp: main_def split: sum.splits)






lemma movie_id_fact_of: "movie_id (fact_of cols years (i, r)) = cell_at cols r ''id''"
  by (simp add: fact_of_def)

lemma movies_frame_Inr:
  assumes "movies_frame dt df = Inr ms"
  obtains years where "''id'' \<in> set (columns df)"
    and "dt (map (\<lambda>r. cell_at (columns df) r ''release_date'') (rows df)) = Inr years"
    and "ms = drop_duplicates_by movie_id
               (map (fact_of (columns df) years) (enumerate 0 (rows df)))"
proof -
  from assms have none: "find (\<lambda>c. c \<notin> set (columns df)) fact_columns = None"
    by (auto simp: movies_frame_def split: option.splits)
  have "''id'' \<in> set fact_columns" by (simp add: fact_columns_def)
  with none have "''id'' \<in> set (columns df)" unfolding find_None_iff by blast
  with none assms that show ?thesis
    by (auto simp: movies_frame_def split: sum.splits)
qed

lemma movies_years:
  assumes "movies_frame (to_datetime_year date_year) df = Inr ms" and "f \<in> set ms"
  shows "year f =
    coerce_year (date_year (map (\<lambda>r. cell_at (columns df) r ''release_date'') (rows df)))
      (release_date f)"
proof -
  let ?cols = "columns df"
  let ?col = "map (\<lambda>r. cell_at ?cols r ''release_date'') (rows df)"
  from assms(1) obtain years
    where years: "to_datetime_year date_year ?col = Inr years"
      and ms: "ms = drop_duplicates_by movie_id
               (map (fact_of ?cols years) (enumerate 0 (rows df)))"
    by (rule movies_frame_Inr)
  from years have y: "years = map (coerce_year (date_year ?col)) ?col"
    by (simp add: to_datetime_year_def)
  from assms(2)
  have "f \<in> set (dd_from movie_id [] (map (fact_of ?cols years) (enumerate 0 (rows df))))"
    by (simp only: ms drop_duplicates_by_dd)
  then have "f \<in> set (map (fact_of ?cols years) (enumerate 0 (rows df)))"
    by (rule subsetD [OF dd_from_subset])
  then obtain i r where ir: "(i, r) \<in> set (enumerate 0 (rows df))"
    and f: "f = fact_of ?cols years (i, r)"
    by auto
  from ir have i: "i < length (rows df)" and r: "rows df ! i = r"
    by (simp_all add: in_set_enumerate_eq)
  from i have "i < length years" by (simp add: y)
  with f have "year f = years ! i" by (simp add: fact_of_def)
  also from i r have "\<dots> = coerce_year (date_year ?col) (cell_at ?cols r ''release_date'')"
    by (simp add: y)
  also from f have "cell_at ?cols r ''release_date'' = release_date f"
    by (simp add: fact_of_def)
  finally show ?thesis .
qed

lemma movies_ids:
  assumes "movies_frame dt df = Inr ms"
  shows "movie_id ` set ms = (\<lambda>r. cell_at (columns df) r ''id'') ` set (rows df)"
proof -
  let ?cols = "columns df"
  from assms obtain years
    where ms: "ms = drop_duplicates_by movie_id
               (map (fact_of ?cols years) (enumerate 0 (rows df)))"
    by (rule movies_frame_Inr)
  let ?facts = "map (fact_of ?cols years) (enumerate 0 (rows df))"
  have eq: "movie_id (fact_of ?cols years x) = cell_at ?cols (snd x) ''id''" for x
    by (cases x) (simp add: movie_id_fact_of)
  have "map movie_id ?facts =
      map ((\<lambda>r. cell_at ?cols r ''id'') \<circ> snd) (enumerate 0 (rows df))"
    by (simp only: map_map comp_def eq)
  also have "\<dots> = map (\<lambda>r. cell_at ?cols r ''id'') (map snd (enumerate 0 (rows df)))"
    by (simp only: map_map)
  also have "\<dots> = map (\<lambda>r. cell_at ?cols r ''id'') (rows df)"
    by (simp only: map_snd_enumerate)
  finally have "set (map movie_id ?facts) = set (map (\<lambda>r. cell_at ?cols r ''id'') (rows df))"
    by simp
  then show ?thesis
    unfolding ms drop_duplicates_by_keys by (simp only: set_map)
qed

lemma movies_frame_errors:
  assumes "movies_frame (to_datetime_year date_year) df = Inl e"
  shows "\<exists>c. c \<in> set fact_columns \<and> c \<notin> set (columns df) \<and> e = KeyError c"
proof (cases "find (\<lambda>c. c \<notin> set (columns df)) fact_columns")
  case None
  with assms show ?thesis by (simp add: movies_frame_def to_datetime_year_def)
next
  case (Some c)
  then have "c \<in> set fact_columns" and "c \<notin> set (columns df)"
    by (auto simp: find_Some_iff)
  with Some assms show ?thesis by (auto simp: movies_frame_def)
qed

lemma dated_main:
  "main default_limits as_recorded as_recorded (to_datetime_year iso_date_year) dated_frame =
   Inr dated_tables"
  by code_simp

section \<open>Lemmas about one row\<close>

lemma process_row_heat: "process_row default_limits movie_columns heat init_accum = Inr heat_accum"
  by code_simp

lemma heat_id: "row_getitem movie_columns heat ''id'' = Inr (IntCell 949)"
  by code_simp

lemma heat_genres:
  "field_items default_limits movie_columns heat ''genres'' =
     Inr [JObj [(''id'', JInt 28), (''name'', JStr ''Action'')], JObj [(''id'', JInt 80)],
          JObj [(''id'', JInt 18), (''name'', JStr ''Drama'')]]"
  by code_simp

lemma heat_companies:
  "field_items default_limits movie_columns heat ''production_companies'' =
     Inr [JObj [(''id'', JInt 508), (''name'', JStr ''Regency'')]]"
  by code_simp

lemma process_field_fail:
  assumes "field_items lim cols r field = Inr items" and "k < length items"
    and "map entity_of (take k items) = map Inr es" and "entity_of (items ! k) = Inl e"
  shows "process_field lim cols r field mid (ents, assocs) =
     ((ents @ es, assocs @ map (\<lambda>(i, n). (mid, i)) es), Some e)"
  using assms by (simp add: process_field_def for_entities_fail)

lemma process_field_ok:
  assumes "field_items lim cols r field = Inr items" and "map entity_of items = map Inr es"
  shows "process_field lim cols r field mid (ents, assocs) =
     ((ents @ es, assocs @ map (\<lambda>(i, n). (mid, i)) es), None)"
  using assms by (simp add: process_field_def for_entities_ok)

lemma process_row_total:
  assumes "''id'' \<in> set cols"
  shows "\<exists>mid st1 err. row_getitem cols r ''id'' = Inr mid \<and>
           try_body lim cols r st = (st1, err) \<and>
           process_row lim cols r st =
             Inr (case err of None \<Rightarrow> st1
                  | Some e \<Rightarrow> st1\<lparr>log_lines := log_lines st1 @ [RowError mid e]\<rparr>)"
proof -
  from row_getitem_present [OF assms] obtain mid where mid: "row_getitem cols r ''id'' = Inr mid"
    by blast
  obtain st1 err where tb: "try_body lim cols r st = (st1, err)" by (metis surj_pair)
  with mid have "process_row lim cols r st =
      Inr (case err of None \<Rightarrow> st1
           | Some e \<Rightarrow> st1\<lparr>log_lines := log_lines st1 @ [RowError mid e]\<rparr>)"
    by (simp add: process_row_def split: option.splits)
  with mid tb show ?thesis by blast
qed

lemma iterrows_total: "''id'' \<in> set cols \<Longrightarrow> \<exists>st'. iterrows lim cols rs st = Inr st'"
proof (induction rs arbitrary: st)
  case Nil
  then show ?case by simp
next
  case (Cons r rs)
  from process_row_total [OF Cons.prems, of r lim st]
  obtain st1 where "process_row lim cols r st = Inr st1" by blast
  with Cons.IH [OF Cons.prems, of st1] show ?case by simp
qed

lemma row_isolation_with_id:
  assumes "''id'' \<in> set cols"
  shows "\<exists>mid st1 err st'.
           row_getitem cols r ''id'' = Inr mid \<and>
           try_body lim cols r st = (st1, err) \<and>
           st' = (case err of None \<Rightarrow> st1
                  | Some e \<Rightarrow> st1\<lparr>log_lines := log_lines st1 @ [RowError mid e]\<rparr>) \<and>
           process_row lim cols r st = Inr st' \<and>
           iterrows lim cols (r # rs) st = iterrows lim cols rs st' \<and>
           (\<exists>st''. iterrows lim cols rs st' = Inr st'')"
proof -
  from process_row_total [OF assms, of r lim st] obtain mid st1 err
    where mid: "row_getitem cols r ''id'' = Inr mid"
      and tb: "try_body lim cols r st = (st1, err)"
      and pr: "process_row lim cols r st =
             Inr (case err of None \<Rightarrow> st1
                  | Some e \<Rightarrow> st1\<lparr>log_lines := log_lines st1 @ [RowError mid e]\<rparr>)"
    by blast
  let ?st' = "case err of None \<Rightarrow> st1
                  | Some e \<Rightarrow> st1\<lparr>log_lines := log_lines st1 @ [RowError mid e]\<rparr>"
  from pr have it: "iterrows lim cols (r # rs) st = iterrows lim cols rs ?st'" by simp
  from iterrows_total [OF assms, of lim rs ?st']
  have "\<exists>st''. iterrows lim cols rs ?st' = Inr st''" .
  with mid tb pr it show ?thesis by blast
qed

lemma try_body_genres_fail:
  assumes "row_getitem cols r ''id'' = Inr mid"
    and "process_field lim cols r ''genres'' mid (genres_list st, movie_genres_list st) =
      ((g, mg), Some e)"
  shows "process_row lim cols r st =
     Inr (st\<lparr>genres_list := g, movie_genres_list := mg,
            log_lines := log_lines st @ [RowError mid e]\<rparr>)"
  using assms by (simp add: process_row_def try_body_def)

lemma try_body_companies_fail:
  assumes "row_getitem cols r ''id'' = Inr mid"
    and "process_field lim cols r ''genres'' mid (genres_list st, movie_genres_list st) =
      ((g, mg), None)"
    and "process_field lim cols r ''production_companies'' mid
      (production_companies_list st, movie_production_companies_list st) = ((pc, mpc), Some e)"
  shows "process_row lim cols r st =
     Inr (st\<lparr>genres_list := g, movie_genres_list := mg, production_companies_list := pc,
            movie_production_companies_list := mpc,
            log_lines := log_lines st @ [RowError mid e]\<rparr>)"
  using assms by (simp add: process_row_def try_body_def)

lemma jumanji_id: "row_getitem movie_columns jumanji ''id'' = Inr (IntCell 8844)"
  by code_simp

lemma jumanji_genres:
  "field_items default_limits movie_columns jumanji ''genres'' =
     Inr [JObj [(''id'', JInt 12), (''name'', JStr ''Adventure'')]]"
  by code_simp

lemma jumanji_companies:
  "field_items default_limits movie_columns jumanji ''production_companies'' =
     Inr [JObj [(''id'', JInt 559), (''name'', JStr ''TriStar'')],
          JObj [(''name'', JStr ''Teitler'')]]"
  by code_simp

lemma casino_id: "row_getitem movie_columns casino ''id'' = Inr (IntCell 524)"
  by code_simp

lemma casino_genres:
  "field_items default_limits movie_columns casino ''genres'' =
     Inr [JObj [(''id'', JInt 18), (''name'', JStr ''Drama'')]]"
  by code_simp

lemma casino_companies:
  "field_items default_limits movie_columns casino ''production_companies'' =
     Inl AttributeError"
  by code_simp

section \<open>Claims\<close>

text \<open>
  Claim C1, as amended. On a text cell, \<open>parse_json_string\<close> replaces every single quote by a
  double quote and decodes the result strictly; when the decoder raises
  \<^verbatim>\<open>JSONDecodeError\<close> (malformed structure, quotes that collide after the substitution, the
  empty text) it returns the empty list. The only exceptions that leave it on a text cell
  are those of the interpreter's limits (\<^verbatim>\<open>ValueError\<close>, \<^verbatim>\<open>RecursionError\<close>). On a cell that is
  not text (a missing value, a number) it raises \<^verbatim>\<open>AttributeError\<close>: the claim as stated
  (null input yields the empty list without raising) fails there.
\<close>

theorem parse_json_string_amended:
  \<open>parse_json_string lim (StrCell s) =
     (case json_loads lim (map (\<lambda>c. if c = CHR 0x27 then CHR 0x22 else c) s) of
        Inl e \<Rightarrow> if e = JSONDecodeError then Inr (JArr []) else Inl e
      | Inr v \<Rightarrow> Inr v) \<and>
   ((\<exists>v. parse_json_string lim (StrCell s) = Inr v) \<or>
    parse_json_string lim (StrCell s) = Inl ValueError \<or>
    parse_json_string lim (StrCell s) = Inl RecursionError) \<and>
   parse_json_string lim (StrCell []) = Inr (JArr []) \<and>
   parse_json_string default_limits (StrCell ''[{id: 16, name: Animation}]'') = Inr (JArr []) \<and>
   parse_json_string default_limits (StrCell ''[{\'id\': 1, \'name\': \'L\'Oreal\'}]'') =
     Inr (JArr []) \<and>
   parse_json_string default_limits (StrCell ''[{\'id\': 16, \'name\': \'Animation\'}]'') =
     Inr (JArr [JObj [(''id'', JInt 16), (''name'', JStr ''Animation'')]]) \<and>
   parse_json_string (default_limits\<lparr>max_nesting := 2\<rparr>) (StrCell ''[[[1]]]'') =
     Inl RecursionError \<and>
   parse_json_string lim NaN = Inl AttributeError \<and>
   parse_json_string lim (IntCell n) = Inl AttributeError\<close>
proof -
  let ?t = "map (\<lambda>c. if c = CHR 0x27 then CHR 0x22 else c) s"
  have 1: "parse_json_string lim (StrCell s) =
     (case json_loads lim ?t of
        Inl e \<Rightarrow> if e = JSONDecodeError then Inr (JArr []) else Inl e
      | Inr v \<Rightarrow> Inr v)"
    by (simp add: parse_json_string_def replace_quotes_map split: sum.splits py_error.splits)
  have 2: "(\<exists>v. parse_json_string lim (StrCell s) = Inr v) \<or>
    parse_json_string lim (StrCell s) = Inl ValueError \<or>
    parse_json_string lim (StrCell s) = Inl RecursionError"
  proof (cases "json_loads lim ?t")
    case (Inl e)
    from json_loads_errors [OF this] Inl show ?thesis unfolding 1 by auto
  next
    case (Inr v)
    then show ?thesis unfolding 1 by simp
  qed
  have 3: "parse_json_string lim (StrCell []) = Inr (JArr [])"
    by (simp add: parse_json_string_def json_loads_def)
  have 4: \<open>parse_json_string default_limits (StrCell ''[{id: 16, name: Animation}]'') =
      Inr (JArr [])\<close>
    by code_simp
  have 5: \<open>parse_json_string default_limits (StrCell ''[{\'id\': 1, \'name\': \'L\'Oreal\'}]'') =
      Inr (JArr [])\<close>
    by code_simp
  have 6: \<open>parse_json_string default_limits (StrCell ''[{\'id\': 16, \'name\': \'Animation\'}]'') =
     Inr (JArr [JObj [(''id'', JInt 16), (''name'', JStr ''Animation'')]])\<close>
    by code_simp
  have 7: "parse_json_string (default_limits\<lparr>max_nesting := 2\<rparr>) (StrCell ''[[[1]]]'') =
     Inl RecursionError"
    by code_simp
  have 8: "parse_json_string lim NaN = Inl AttributeError"
    and 9: "parse_json_string lim (IntCell n) = Inl AttributeError"
    by (simp_all add: parse_json_string_def)
  from 1 2 3 4 5 6 7 8 9 show ?thesis by (intro conjI)
qed

theorem parse_json_string_null_counterexample:
  "parse_json_string default_limits NaN = Inl AttributeError \<and>
   parse_json_string default_limits NaN \<noteq> Inr (JArr [])"
  by (simp add: parse_json_string_def)

text \<open>
  Claim C10. \<open>parse_json_string\<close> does not validate the shape of what it decodes: a bare
  number, a single object and a list of scalars are returned as they are, and the
  shape error surfaces in the caller, where the row handler logs it.
\<close>

theorem no_shape_validation:
  \<open>parse_json_string default_limits (StrCell ''5'') = Inr (JInt 5) \<and>
   parse_json_string default_limits (StrCell ''{\'id\': 16, \'name\': \'Animation\'}'') =
     Inr (JObj [(''id'', JInt 16), (''name'', JStr ''Animation'')]) \<and>
   parse_json_string default_limits (StrCell ''[1, 2]'') = Inr (JArr [JInt 1, JInt 2]) \<and>
   process_row default_limits movie_columns (row_with_genres ''5'') init_accum =
     Inr (init_accum\<lparr>log_lines := [RowError (IntCell 1) TypeError]\<rparr>) \<and>
   process_row default_limits movie_columns
       (row_with_genres ''{\'id\': 16, \'name\': \'Animation\'}'') init_accum =
     Inr (init_accum\<lparr>log_lines := [RowError (IntCell 1) TypeError]\<rparr>) \<and>
   process_row default_limits movie_columns (row_with_genres ''[1, 2]'') init_accum =
     Inr (init_accum\<lparr>log_lines := [RowError (IntCell 1) TypeError]\<rparr>)\<close>
proof -
  have 1: "parse_json_string default_limits (StrCell ''5'') = Inr (JInt 5)" by code_simp
  have 2: \<open>parse_json_string default_limits (StrCell ''{\'id\': 16, \'name\': \'Animation\'}'') =
     Inr (JObj [(''id'', JInt 16), (''name'', JStr ''Animation'')])\<close> by code_simp
  have 3: "parse_json_string default_limits (StrCell ''[1, 2]'') = Inr (JArr [JInt 1, JInt 2])"
    by code_simp
  have 4: "process_row default_limits movie_columns (row_with_genres ''5'') init_accum =
     Inr (init_accum\<lparr>log_lines := [RowError (IntCell 1) TypeError]\<rparr>)" by code_simp
  have 5: \<open>process_row default_limits movie_columns
       (row_with_genres ''{\'id\': 16, \'name\': \'Animation\'}'') init_accum =
     Inr (init_accum\<lparr>log_lines := [RowError (IntCell 1) TypeError]\<rparr>)\<close> by code_simp
  have 6: "process_row default_limits movie_columns (row_with_genres ''[1, 2]'') init_accum =
     Inr (init_accum\<lparr>log_lines := [RowError (IntCell 1) TypeError]\<rparr>)" by code_simp
  from 1 2 3 4 5 6 show ?thesis by (intro conjI)
qed

text \<open>
  Claim C9. Referential integrity of the bridge lists is an invariant of the loop: after
  any prefix of the rows has been processed (rows that failed mid-field included), every
  entity id of \<open>movie_genres_list\<close> is the id of an entity of \<open>genres_list\<close>, and every entity
  id of \<open>movie_production_companies_list\<close> is the id of an entity of
  \<open>production_companies_list\<close>.
\<close>

theorem referential_integrity:
  "iterrows lim cols (take n rs) init_accum = Inr st \<Longrightarrow>
     snd ` set (movie_genres_list st) \<subseteq> fst ` set (genres_list st) \<and>
     snd ` set (movie_production_companies_list st) \<subseteq> fst ` set (production_companies_list st)"
proof -
  assume a: "iterrows lim cols (take n rs) init_accum = Inr st"
  have "paired init_accum" by (simp add: paired_def init_accum_def)
  from iterrows_paired [OF a this] have p: "paired st" .
  then have "set (map snd (movie_genres_list st)) = set (map fst (genres_list st))"
    and "set (map snd (movie_production_companies_list st)) =
      set (map fst (production_companies_list st))"
    by (simp_all only: paired_def)
  then show ?thesis by (simp only: set_map) blast
qed

theorem referential_integrity_witness:
  "iterrows default_limits movie_columns (take 2 [heat, toy_story, toy_story_again]) init_accum =
     Inr \<lparr>production_companies_list = [(JInt 3, JStr ''Pixar'')],
          genres_list = [(JInt 28, JStr ''Action''), (JInt 16, JStr ''Animation'')],
          movie_genres_list = [(IntCell 949, JInt 28), (IntCell 862, JInt 16)],
          movie_production_companies_list = [(IntCell 862, JInt 3)],
          log_lines = [RowError (IntCell 949) (KeyError ''name'')]\<rparr> \<and>
   snd ` set [(IntCell 949, JInt 28), (IntCell 862, JInt 16)] \<subseteq>
     fst ` set [(JInt 28, JStr ''Action''), (JInt 16, JStr ''Animation'')] \<and>
   snd ` set [(IntCell 862, JInt 3)] \<subseteq> fst ` set [(JInt 3, JStr ''Pixar'')]"
proof -
  have h: "iterrows default_limits movie_columns (take 2 [heat, toy_story, toy_story_again])
      init_accum =
     Inr \<lparr>production_companies_list = [(JInt 3, JStr ''Pixar'')],
          genres_list = [(JInt 28, JStr ''Action''), (JInt 16, JStr ''Animation'')],
          movie_genres_list = [(IntCell 949, JInt 28), (IntCell 862, JInt 16)],
          movie_production_companies_list = [(IntCell 862, JInt 3)],
          log_lines = [RowError (IntCell 949) (KeyError ''name'')]\<rparr>"
    by code_simp
  from referential_integrity [OF h] h show ?thesis by simp
qed



text \<open>
  Claim C8. When \<open>main\<close> exports its tables and the year coercion keeps the contract of the
  specification (\<open>to_datetime_year\<close>: a date that can be read yields its year, any other cell
  an absent year, and nothing is raised), every row of the fact table carries the year of
  its own release date, and an absent year where that date cannot be read; every movie id
  of the source still has its row, so no row is lost to its date; and the fact table fails
  to be built only for a column that the frame lacks, never for a date. Read as in the
  specification's example, \<^verbatim>\<open>1995-10-30\<close> yields 1995, and an empty date, the empty text or
  the missing cell, yields an absent year.
\<close>

theorem year_extraction:
  assumes "main lim conv_id conv (to_datetime_year date_year) df = Inr out"
  shows "(\<forall>f \<in> set (movies out).
            year f =
              coerce_year
                (date_year (map (\<lambda>r. cell_at (columns df) r ''release_date'') (rows df)))
                (release_date f)) \<and>
         (\<forall>read_year c y. read_year c = Some y \<longrightarrow> coerce_year read_year c = IntCell y) \<and>
         (\<forall>read_year c. read_year c = None \<longrightarrow> coerce_year read_year c = NaN) \<and>
         movie_id ` set (movies out) = (\<lambda>r. cell_at (columns df) r ''id'') ` set (rows df) \<and>
         (\<forall>e. movies_frame (to_datetime_year date_year) df = Inl e \<longrightarrow>
              (\<exists>c. c \<in> set fact_columns \<and> c \<notin> set (columns df) \<and> e = KeyError c)) \<and>
         coerce_year (iso_date_year column) (StrCell ''1995-10-30'') = IntCell 1995 \<and>
         coerce_year (iso_date_year column) (StrCell '''') = NaN \<and>
         coerce_year (iso_date_year column) NaN = NaN"
proof -
  from assms have m: "movies_frame (to_datetime_year date_year) df = Inr (movies out)"
    by (rule main_Inr)
  have 1: "\<forall>f \<in> set (movies out).
      year f =
        coerce_year (date_year (map (\<lambda>r. cell_at (columns df) r ''release_date'') (rows df)))
          (release_date f)"
    using movies_years [OF m] by blast
  have 2: "\<forall>read_year c y. read_year c = Some y \<longrightarrow> coerce_year read_year c = IntCell y"
    and 3: "\<forall>read_year c. read_year c = None \<longrightarrow> coerce_year read_year c = NaN"
    by (simp_all add: coerce_year_def)
  have 4: "movie_id ` set (movies out) = (\<lambda>r. cell_at (columns df) r ''id'') ` set (rows df)"
    using m by (rule movies_ids)
  have 5: "\<forall>e. movies_frame (to_datetime_year date_year) df = Inl e \<longrightarrow>
              (\<exists>c. c \<in> set fact_columns \<and> c \<notin> set (columns df) \<and> e = KeyError c)"
    using movies_frame_errors by blast
  have a: "iso_year ''1995-10-30'' = Some 1995" by code_simp
  have b: "iso_year '''' = None" by code_simp
  have 6: "coerce_year (iso_date_year column) (StrCell ''1995-10-30'') = IntCell 1995"
    by (simp add: coerce_year_def iso_date_year_def a)
  have 7: "coerce_year (iso_date_year column) (StrCell '''') = NaN"
    by (simp add: coerce_year_def iso_date_year_def b)
  have 8: "coerce_year (iso_date_year column) NaN = NaN"
    by (simp add: coerce_year_def iso_date_year_def)
  from 1 2 3 4 5 6 7 8 show ?thesis by (intro conjI)
qed

theorem year_extraction_witness:
  "main default_limits as_recorded as_recorded (to_datetime_year iso_date_year) dated_frame =
     Inr dated_tables \<and>
   map (\<lambda>f. (release_date f, year f)) (movies dated_tables) =
     [(StrCell ''1995-10-30'', IntCell 1995), (StrCell ''soon'', NaN), (NaN, NaN)] \<and>
   list_all (\<lambda>f. year f =
       coerce_year
         (iso_date_year
           (map (\<lambda>r. cell_at (columns dated_frame) r ''release_date'') (rows dated_frame)))
         (release_date f)) (movies dated_tables) \<and>
   movie_id ` set (movies dated_tables) =
     (\<lambda>r. cell_at (columns dated_frame) r ''id'') ` set (rows dated_frame) \<and>
   iso_date_year [] (StrCell ''1995-10-30'') = Some 1995 \<and>
   coerce_year (iso_date_year []) (StrCell ''1995-10-30'') = IntCell 1995 \<and>
   iso_date_year [] (StrCell ''soon'') = None \<and>
   coerce_year (iso_date_year []) (StrCell ''soon'') = NaN \<and>
   iso_date_year [] (StrCell ''1995-02-30'') = None \<and>
   coerce_year (iso_date_year []) (StrCell ''1995-02-30'') = NaN \<and>
   coerce_year (iso_date_year []) (StrCell '''') = NaN \<and>
   coerce_year (iso_date_year []) NaN = NaN"
proof -
  note t = year_extraction [OF dated_main, of "[]"]
  have 1: "map (\<lambda>f. (release_date f, year f)) (movies dated_tables) =
     [(StrCell ''1995-10-30'', IntCell 1995), (StrCell ''soon'', NaN), (NaN, NaN)]"
    by code_simp
  from t have "\<forall>f \<in> set (movies dated_tables).
      year f =
        coerce_year
          (iso_date_year
            (map (\<lambda>r. cell_at (columns dated_frame) r ''release_date'') (rows dated_frame)))
          (release_date f)"
    by (elim conjE)
  then have 2: "list_all (\<lambda>f. year f =
       coerce_year
         (iso_date_year
           (map (\<lambda>r. cell_at (columns dated_frame) r ''release_date'') (rows dated_frame)))
         (release_date f)) (movies dated_tables)"
    by (simp only: list_all_iff)
  from t have 3: "movie_id ` set (movies dated_tables) =
     (\<lambda>r. cell_at (columns dated_frame) r ''id'') ` set (rows dated_frame)"
    by (elim conjE)
  have a: "iso_date_year [] (StrCell ''1995-10-30'') = Some 1995" by code_simp
  have b: "iso_date_year [] (StrCell ''soon'') = None" by code_simp
  have c: "iso_date_year [] (StrCell ''1995-02-30'') = None" by code_simp
  from t have s: "\<forall>read_year c y. read_year c = Some y \<longrightarrow> coerce_year read_year c = IntCell y"
    by (elim conjE)
  from t have n: "\<forall>read_year c. read_year c = None \<longrightarrow> coerce_year read_year c = NaN"
    by (elim conjE)
  from t have 8: "coerce_year (iso_date_year []) (StrCell '''') = NaN"
    by (elim conjE)
  from t have 9: "coerce_year (iso_date_year []) NaN = NaN"
    by (elim conjE)
  from s a have 5: "coerce_year (iso_date_year []) (StrCell ''1995-10-30'') = IntCell 1995"
    by blast
  from n b have 6: "coerce_year (iso_date_year []) (StrCell ''soon'') = NaN" by blast
  from n c have 7: "coerce_year (iso_date_year []) (StrCell ''1995-02-30'') = NaN" by blast
  from dated_main 1 2 3 a 5 b 6 c 7 8 9 show ?thesis by (intro conjI)
qed






text \<open>
  Claim C3, as amended. The two embedded fields of a row are processed in order inside one
  \<^verbatim>\<open>try\<close>. When the \<^verbatim>\<open>genres\<close> list holds an entity without \<^verbatim>\<open>id\<close> or \<^verbatim>\<open>name\<close>, the entities
  before it are kept, the field is abandoned there, and \<^verbatim>\<open>production_companies\<close> of that row
  is not processed at all. When \<^verbatim>\<open>genres\<close> is well-formed and \<^verbatim>\<open>production_companies\<close> holds
  such an entity, all genres of the row are kept together with the companies before the
  failing one. The claim as stated (the sibling field is still fully processed) fails on
  \<open>heat\<close>: its well-formed company is never recorded.
\<close>

theorem sibling_field_amended:
  assumes "row_getitem cols r ''id'' = Inr mid"
  shows "(field_items lim cols r ''genres'' = Inr gs \<longrightarrow> k < length gs \<longrightarrow>
          map entity_of (take k gs) = map Inr es \<longrightarrow> entity_of (gs ! k) = Inl e \<longrightarrow>
            process_row lim cols r st =
              Inr (st\<lparr>genres_list := genres_list st @ es,
                     movie_genres_list := movie_genres_list st @ map (\<lambda>(i, n). (mid, i)) es,
                     log_lines := log_lines st @ [RowError mid e]\<rparr>)) \<and>
         (field_items lim cols r ''genres'' = Inr gs \<longrightarrow> map entity_of gs = map Inr ges \<longrightarrow>
          field_items lim cols r ''production_companies'' = Inr cs \<longrightarrow> k < length cs \<longrightarrow>
          map entity_of (take k cs) = map Inr es \<longrightarrow> entity_of (cs ! k) = Inl e \<longrightarrow>
            process_row lim cols r st =
              Inr (st\<lparr>genres_list := genres_list st @ ges,
                     movie_genres_list := movie_genres_list st @ map (\<lambda>(i, n). (mid, i)) ges,
                     production_companies_list := production_companies_list st @ es,
                     movie_production_companies_list :=
                       movie_production_companies_list st @ map (\<lambda>(i, n). (mid, i)) es,
                     log_lines := log_lines st @ [RowError mid e]\<rparr>))"
proof (intro conjI impI)
  assume "field_items lim cols r ''genres'' = Inr gs" "k < length gs"
    "map entity_of (take k gs) = map Inr es" "entity_of (gs ! k) = Inl e"
  then have "process_field lim cols r ''genres'' mid (genres_list st, movie_genres_list st) =
      ((genres_list st @ es, movie_genres_list st @ map (\<lambda>(i, n). (mid, i)) es), Some e)"
    by (rule process_field_fail)
  with assms show "process_row lim cols r st =
      Inr (st\<lparr>genres_list := genres_list st @ es,
             movie_genres_list := movie_genres_list st @ map (\<lambda>(i, n). (mid, i)) es,
             log_lines := log_lines st @ [RowError mid e]\<rparr>)"
    by (rule try_body_genres_fail)
next
  assume g: "field_items lim cols r ''genres'' = Inr gs" "map entity_of gs = map Inr ges"
    and c: "field_items lim cols r ''production_companies'' = Inr cs" "k < length cs"
      "map entity_of (take k cs) = map Inr es" "entity_of (cs ! k) = Inl e"
  from g have 1: "process_field lim cols r ''genres'' mid (genres_list st, movie_genres_list st) =
      ((genres_list st @ ges, movie_genres_list st @ map (\<lambda>(i, n). (mid, i)) ges), None)"
    by (rule process_field_ok)
  from c have 2: "process_field lim cols r ''production_companies'' mid
      (production_companies_list st, movie_production_companies_list st) =
      ((production_companies_list st @ es,
        movie_production_companies_list st @ map (\<lambda>(i, n). (mid, i)) es), Some e)"
    by (rule process_field_fail)
  from assms 1 2 show "process_row lim cols r st =
      Inr (st\<lparr>genres_list := genres_list st @ ges,
             movie_genres_list := movie_genres_list st @ map (\<lambda>(i, n). (mid, i)) ges,
             production_companies_list := production_companies_list st @ es,
             movie_production_companies_list :=
               movie_production_companies_list st @ map (\<lambda>(i, n). (mid, i)) es,
             log_lines := log_lines st @ [RowError mid e]\<rparr>)"
    by (rule try_body_companies_fail)
qed

theorem sibling_field_amended_witness:
  "row_getitem movie_columns heat ''id'' = Inr (IntCell 949) \<and>
   field_items default_limits movie_columns heat ''genres'' =
     Inr [JObj [(''id'', JInt 28), (''name'', JStr ''Action'')], JObj [(''id'', JInt 80)],
          JObj [(''id'', JInt 18), (''name'', JStr ''Drama'')]] \<and>
   field_items default_limits movie_columns heat ''production_companies'' =
     Inr [JObj [(''id'', JInt 508), (''name'', JStr ''Regency'')]] \<and>
   process_row default_limits movie_columns heat init_accum =
     Inr (init_accum\<lparr>genres_list := [(JInt 28, JStr ''Action'')],
            movie_genres_list := [(IntCell 949, JInt 28)],
            log_lines := [RowError (IntCell 949) (KeyError ''name'')]\<rparr>) \<and>
   row_getitem movie_columns jumanji ''id'' = Inr (IntCell 8844) \<and>
   field_items default_limits movie_columns jumanji ''genres'' =
     Inr [JObj [(''id'', JInt 12), (''name'', JStr ''Adventure'')]] \<and>
   field_items default_limits movie_columns jumanji ''production_companies'' =
     Inr [JObj [(''id'', JInt 559), (''name'', JStr ''TriStar'')],
          JObj [(''name'', JStr ''Teitler'')]] \<and>
   process_row default_limits movie_columns jumanji init_accum =
     Inr (init_accum\<lparr>genres_list := [(JInt 12, JStr ''Adventure'')],
            movie_genres_list := [(IntCell 8844, JInt 12)],
            production_companies_list := [(JInt 559, JStr ''TriStar'')],
            movie_production_companies_list := [(IntCell 8844, JInt 559)],
            log_lines := [RowError (IntCell 8844) (KeyError ''id'')]\<rparr>)"
proof -
  let ?hg = "[JObj [(''id'', JInt 28), (''name'', JStr ''Action'')], JObj [(''id'', JInt 80)],
          JObj [(''id'', JInt 18), (''name'', JStr ''Drama'')]]"
  let ?jg = "[JObj [(''id'', JInt 12), (''name'', JStr ''Adventure'')]]"
  let ?jc = "[JObj [(''id'', JInt 559), (''name'', JStr ''TriStar'')],
          JObj [(''name'', JStr ''Teitler'')]]"
  have a1: "(1::nat) < length ?hg" by simp
  have a2: "map entity_of (take 1 ?hg) = map Inr [(JInt 28, JStr ''Action'')]" by code_simp
  have a3: "entity_of (?hg ! 1) = Inl (KeyError ''name'')" by code_simp
  from sibling_field_amended [OF heat_id, THEN conjunct1, rule_format,
      OF heat_genres a1 a2 a3, of init_accum]
  have A: "process_row default_limits movie_columns heat init_accum =
     Inr (init_accum\<lparr>genres_list := [(JInt 28, JStr ''Action'')],
            movie_genres_list := [(IntCell 949, JInt 28)],
            log_lines := [RowError (IntCell 949) (KeyError ''name'')]\<rparr>)"
    by (simp add: init_accum_def)
  have b1: "map entity_of ?jg = map Inr [(JInt 12, JStr ''Adventure'')]" by code_simp
  have b2: "(1::nat) < length ?jc" by simp
  have b3: "map entity_of (take 1 ?jc) = map Inr [(JInt 559, JStr ''TriStar'')]" by code_simp
  have b4: "entity_of (?jc ! 1) = Inl (KeyError ''id'')" by code_simp
  from sibling_field_amended [OF jumanji_id, THEN conjunct2, rule_format,
      OF jumanji_genres b1 jumanji_companies b2 b3 b4, of init_accum]
  have B: "process_row default_limits movie_columns jumanji init_accum =
     Inr (init_accum\<lparr>genres_list := [(JInt 12, JStr ''Adventure'')],
            movie_genres_list := [(IntCell 8844, JInt 12)],
            production_companies_list := [(JInt 559, JStr ''TriStar'')],
            movie_production_companies_list := [(IntCell 8844, JInt 559)],
            log_lines := [RowError (IntCell 8844) (KeyError ''id'')]\<rparr>)"
    by (simp add: init_accum_def)
  from heat_id heat_genres heat_companies A jumanji_id jumanji_genres jumanji_companies B
  show ?thesis by (intro conjI)
qed

theorem sibling_field_counterexample:
  "field_items default_limits movie_columns heat ''genres'' =
     Inr [JObj [(''id'', JInt 28), (''name'', JStr ''Action'')], JObj [(''id'', JInt 80)],
          JObj [(''id'', JInt 18), (''name'', JStr ''Drama'')]] \<and>
   entity_of (JObj [(''id'', JInt 80)]) = Inl (KeyError ''name'') \<and>
   field_items default_limits movie_columns heat ''production_companies'' =
     Inr [JObj [(''id'', JInt 508), (''name'', JStr ''Regency'')]] \<and>
   entity_of (JObj [(''id'', JInt 508), (''name'', JStr ''Regency'')]) =
     Inr (JInt 508, JStr ''Regency'') \<and>
   process_row default_limits movie_columns heat init_accum = Inr heat_accum \<and>
   production_companies_list heat_accum = [] \<and>
   movie_production_companies_list heat_accum = []"
proof -
  have "entity_of (JObj [(''id'', JInt 80)]) = Inl (KeyError ''name'')" by code_simp
  moreover have "entity_of (JObj [(''id'', JInt 508), (''name'', JStr ''Regency'')]) =
     Inr (JInt 508, JStr ''Regency'')" by code_simp
  moreover have "production_companies_list heat_accum = []"
    and "movie_production_companies_list heat_accum = []"
    by (simp_all add: heat_accum_def)
  ultimately show ?thesis using heat_genres heat_companies process_row_heat by (intro conjI)
qed

text \<open>
  Claim C4. Any exception raised while one row is normalized (a missing primary id, a
  malformed entity, a type error) is caught at row granularity, recorded as a log line with
  the row's id and the cause, and does not keep a later row from being processed.
  The code does so in every frame that has an \<^verbatim>\<open>id\<close> column (lemma \<open>row_isolation_with_id\<close>),
  and its \<^verbatim>\<open>try\<close> does enclose \<^verbatim>\<open>movie_id = row['id']\<close>. But the handler of line 124 evaluates
  \<^verbatim>\<open>row['id']\<close> once more, outside the \<^verbatim>\<open>try\<close>: in a frame without an \<^verbatim>\<open>id\<close> column the
  \<^verbatim>\<open>KeyError\<close> that the \<^verbatim>\<open>try\<close> has just caught is raised again and leaves the loop. The
  theorem evaluates the code on such a frame: the body of the \<^verbatim>\<open>try\<close> raises, the row returns
  the exception instead of a log line, and the loop stops before the second row.
\<close>

theorem handler_reraises_without_id:
  "try_body default_limits no_id_columns heat_no_id init_accum =
     (init_accum, Some (KeyError ''id'')) \<and>
   row_getitem no_id_columns heat_no_id ''id'' = Inl (KeyError ''id'') \<and>
   process_row default_limits no_id_columns heat_no_id init_accum = Inl (KeyError ''id'') \<and>
   iterrows default_limits no_id_columns [heat_no_id, toy_story_no_id] init_accum =
     Inl (KeyError ''id'')"
  by code_simp

text \<open>
  Claim C5, as amended. When a field of a row raises, what the row has appended so far stays
  in the lists the row leaves behind. If the exception comes before the first entity of
  the field (the cell is missing or is not text, the decoded value cannot be iterated), the
  field contributes nothing. If an entity of the list lacks \<^verbatim>\<open>id\<close> or \<^verbatim>\<open>name\<close>, the entities
  before it stay in the entity list and in the bridge list (a partial prefix is retained);
  the failing entity and those after it contribute nothing. In every case the row adds its
  log line and the loop goes on with the later rows, from exactly that state. The claim
  as stated (no partial prefix is retained) fails on \<open>heat\<close>.
\<close>

theorem failing_field_keeps_prefix:
  assumes "row_getitem cols r ''id'' = Inr mid"
  shows
    "(field_items lim cols r ''genres'' = Inl e \<longrightarrow>
        (\<exists>st'. st' = st\<lparr>log_lines := log_lines st @ [RowError mid e]\<rparr> \<and>
               process_row lim cols r st = Inr st' \<and>
               iterrows lim cols (r # rs) st = iterrows lim cols rs st')) \<and>
     (field_items lim cols r ''genres'' = Inr gs \<longrightarrow> k < length gs \<longrightarrow>
      map entity_of (take k gs) = map Inr es \<longrightarrow> entity_of (gs ! k) = Inl e \<longrightarrow>
        (\<exists>st'. st' = st\<lparr>genres_list := genres_list st @ es,
                        movie_genres_list :=
                          movie_genres_list st @ map (\<lambda>(i, n). (mid, i)) es,
                        log_lines := log_lines st @ [RowError mid e]\<rparr> \<and>
               process_row lim cols r st = Inr st' \<and>
               iterrows lim cols (r # rs) st = iterrows lim cols rs st')) \<and>
     (field_items lim cols r ''genres'' = Inr gs \<longrightarrow> map entity_of gs = map Inr ges \<longrightarrow>
      field_items lim cols r ''production_companies'' = Inl e \<longrightarrow>
        (\<exists>st'. st' = st\<lparr>genres_list := genres_list st @ ges,
                        movie_genres_list :=
                          movie_genres_list st @ map (\<lambda>(i, n). (mid, i)) ges,
                        log_lines := log_lines st @ [RowError mid e]\<rparr> \<and>
               process_row lim cols r st = Inr st' \<and>
               iterrows lim cols (r # rs) st = iterrows lim cols rs st')) \<and>
     (field_items lim cols r ''genres'' = Inr gs \<longrightarrow> map entity_of gs = map Inr ges \<longrightarrow>
      field_items lim cols r ''production_companies'' = Inr cs \<longrightarrow> k < length cs \<longrightarrow>
      map entity_of (take k cs) = map Inr es \<longrightarrow> entity_of (cs ! k) = Inl e \<longrightarrow>
        (\<exists>st'. st' = st\<lparr>genres_list := genres_list st @ ges,
                        movie_genres_list :=
                          movie_genres_list st @ map (\<lambda>(i, n). (mid, i)) ges,
                        production_companies_list := production_companies_list st @ es,
                        movie_production_companies_list :=
                          movie_production_companies_list st @ map (\<lambda>(i, n). (mid, i)) es,
                        log_lines := log_lines st @ [RowError mid e]\<rparr> \<and>
               process_row lim cols r st = Inr st' \<and>
               iterrows lim cols (r # rs) st = iterrows lim cols rs st')) \<and>
     (\<exists>st''. iterrows lim cols rs st0 = Inr st'')"
proof (intro conjI impI)
  assume "field_items lim cols r ''genres'' = Inl e"
  then have "process_field lim cols r ''genres'' mid (genres_list st, movie_genres_list st) =
      ((genres_list st, movie_genres_list st), Some e)"
    by (simp add: process_field_def)
  with assms have "process_row lim cols r st =
      Inr (st\<lparr>genres_list := genres_list st, movie_genres_list := movie_genres_list st,
             log_lines := log_lines st @ [RowError mid e]\<rparr>)"
    by (rule try_body_genres_fail)
  then have "process_row lim cols r st = Inr (st\<lparr>log_lines := log_lines st @ [RowError mid e]\<rparr>)"
    by simp
  then show "\<exists>st'. st' = st\<lparr>log_lines := log_lines st @ [RowError mid e]\<rparr> \<and>
               process_row lim cols r st = Inr st' \<and>
               iterrows lim cols (r # rs) st = iterrows lim cols rs st'"
    by simp
next
  assume "field_items lim cols r ''genres'' = Inr gs" "k < length gs"
    "map entity_of (take k gs) = map Inr es" "entity_of (gs ! k) = Inl e"
  then have "process_field lim cols r ''genres'' mid (genres_list st, movie_genres_list st) =
      ((genres_list st @ es, movie_genres_list st @ map (\<lambda>(i, n). (mid, i)) es), Some e)"
    by (rule process_field_fail)
  with assms have "process_row lim cols r st =
      Inr (st\<lparr>genres_list := genres_list st @ es,
             movie_genres_list := movie_genres_list st @ map (\<lambda>(i, n). (mid, i)) es,
             log_lines := log_lines st @ [RowError mid e]\<rparr>)"
    by (rule try_body_genres_fail)
  then show "\<exists>st'. st' = st\<lparr>genres_list := genres_list st @ es,
                        movie_genres_list :=
                          movie_genres_list st @ map (\<lambda>(i, n). (mid, i)) es,
                        log_lines := log_lines st @ [RowError mid e]\<rparr> \<and>
               process_row lim cols r st = Inr st' \<and>
               iterrows lim cols (r # rs) st = iterrows lim cols rs st'"
    by simp
next
  assume g: "field_items lim cols r ''genres'' = Inr gs" "map entity_of gs = map Inr ges"
    and c: "field_items lim cols r ''production_companies'' = Inl e"
  from g have 1: "process_field lim cols r ''genres'' mid (genres_list st, movie_genres_list st) =
      ((genres_list st @ ges, movie_genres_list st @ map (\<lambda>(i, n). (mid, i)) ges), None)"
    by (rule process_field_ok)
  from c have 2: "process_field lim cols r ''production_companies'' mid
      (production_companies_list st, movie_production_companies_list st) =
      ((production_companies_list st, movie_production_companies_list st), Some e)"
    by (simp add: process_field_def)
  from assms 1 2 have "process_row lim cols r st =
      Inr (st\<lparr>genres_list := genres_list st @ ges,
             movie_genres_list := movie_genres_list st @ map (\<lambda>(i, n). (mid, i)) ges,
             production_companies_list := production_companies_list st,
             movie_production_companies_list := movie_production_companies_list st,
             log_lines := log_lines st @ [RowError mid e]\<rparr>)"
    by (rule try_body_companies_fail)
  then have "process_row lim cols r st =
      Inr (st\<lparr>genres_list := genres_list st @ ges,
             movie_genres_list := movie_genres_list st @ map (\<lambda>(i, n). (mid, i)) ges,
             log_lines := log_lines st @ [RowError mid e]\<rparr>)"
    by simp
  then show "\<exists>st'. st' = st\<lparr>genres_list := genres_list st @ ges,
                        movie_genres_list :=
                          movie_genres_list st @ map (\<lambda>(i, n). (mid, i)) ges,
                        log_lines := log_lines st @ [RowError mid e]\<rparr> \<and>
               process_row lim cols r st = Inr st' \<and>
               iterrows lim cols (r # rs) st = iterrows lim cols rs st'"
    by simp
next
  assume g: "field_items lim cols r ''genres'' = Inr gs" "map entity_of gs = map Inr ges"
    and c: "field_items lim cols r ''production_companies'' = Inr cs" "k < length cs"
      "map entity_of (take k cs) = map Inr es" "entity_of (cs ! k) = Inl e"
  from g have 1: "process_field lim cols r ''genres'' mid (genres_list st, movie_genres_list st) =
      ((genres_list st @ ges, movie_genres_list st @ map (\<lambda>(i, n). (mid, i)) ges), None)"
    by (rule process_field_ok)
  from c have 2: "process_field lim cols r ''production_companies'' mid
      (production_companies_list st, movie_production_companies_list st) =
      ((production_companies_list st @ es,
        movie_production_companies_list st @ map (\<lambda>(i, n). (mid, i)) es), Some e)"
    by (rule process_field_fail)
  from assms 1 2 have "process_row lim cols r st =
      Inr (st\<lparr>genres_list := genres_list st @ ges,
             movie_genres_list := movie_genres_list st @ map (\<lambda>(i, n). (mid, i)) ges,
             production_companies_list := production_companies_list st @ es,
             movie_production_companies_list :=
               movie_production_companies_list st @ map (\<lambda>(i, n). (mid, i)) es,
             log_lines := log_lines st @ [RowError mid e]\<rparr>)"
    by (rule try_body_companies_fail)
  then show "\<exists>st'. st' = st\<lparr>genres_list := genres_list st @ ges,
                        movie_genres_list :=
                          movie_genres_list st @ map (\<lambda>(i, n). (mid, i)) ges,
                        production_companies_list := production_companies_list st @ es,
                        movie_production_companies_list :=
                          movie_production_companies_list st @ map (\<lambda>(i, n). (mid, i)) es,
                        log_lines := log_lines st @ [RowError mid e]\<rparr> \<and>
               process_row lim cols r st = Inr st' \<and>
               iterrows lim cols (r # rs) st = iterrows lim cols rs st'"
    by simp
next
  have "''id'' \<in> set cols"
  proof (rule ccontr)
    assume "''id'' \<notin> set cols"
    from row_getitem_absent [OF this, of r] assms show False by simp
  qed
  then show "\<exists>st''. iterrows lim cols rs st0 = Inr st''" by (rule iterrows_total)
qed

theorem failing_field_keeps_prefix_witness:
  "row_getitem movie_columns (row_with_genres ''5'') ''id'' = Inr (IntCell 1) \<and>
   field_items default_limits movie_columns (row_with_genres ''5'') ''genres'' = Inl TypeError \<and>
   process_row default_limits movie_columns (row_with_genres ''5'') init_accum =
     Inr (init_accum\<lparr>log_lines := [RowError (IntCell 1) TypeError]\<rparr>) \<and>
   row_getitem movie_columns heat ''id'' = Inr (IntCell 949) \<and>
   field_items default_limits movie_columns heat ''genres'' =
     Inr [JObj [(''id'', JInt 28), (''name'', JStr ''Action'')], JObj [(''id'', JInt 80)],
          JObj [(''id'', JInt 18), (''name'', JStr ''Drama'')]] \<and>
   process_row default_limits movie_columns heat init_accum =
     Inr (init_accum\<lparr>genres_list := [(JInt 28, JStr ''Action'')],
            movie_genres_list := [(IntCell 949, JInt 28)],
            log_lines := [RowError (IntCell 949) (KeyError ''name'')]\<rparr>) \<and>
   iterrows default_limits movie_columns [heat, toy_story] init_accum =
     iterrows default_limits movie_columns [toy_story]
       (init_accum\<lparr>genres_list := [(JInt 28, JStr ''Action'')],
            movie_genres_list := [(IntCell 949, JInt 28)],
            log_lines := [RowError (IntCell 949) (KeyError ''name'')]\<rparr>) \<and>
   row_getitem movie_columns casino ''id'' = Inr (IntCell 524) \<and>
   field_items default_limits movie_columns casino ''genres'' =
     Inr [JObj [(''id'', JInt 18), (''name'', JStr ''Drama'')]] \<and>
   field_items default_limits movie_columns casino ''production_companies'' =
     Inl AttributeError \<and>
   process_row default_limits movie_columns casino init_accum =
     Inr (init_accum\<lparr>genres_list := [(JInt 18, JStr ''Drama'')],
            movie_genres_list := [(IntCell 524, JInt 18)],
            log_lines := [RowError (IntCell 524) AttributeError]\<rparr>) \<and>
   row_getitem movie_columns jumanji ''id'' = Inr (IntCell 8844) \<and>
   field_items default_limits movie_columns jumanji ''production_companies'' =
     Inr [JObj [(''id'', JInt 559), (''name'', JStr ''TriStar'')],
          JObj [(''name'', JStr ''Teitler'')]] \<and>
   process_row default_limits movie_columns jumanji init_accum =
     Inr (init_accum\<lparr>genres_list := [(JInt 12, JStr ''Adventure'')],
            movie_genres_list := [(IntCell 8844, JInt 12)],
            production_companies_list := [(JInt 559, JStr ''TriStar'')],
            movie_production_companies_list := [(IntCell 8844, JInt 559)],
            log_lines := [RowError (IntCell 8844) (KeyError ''id'')]\<rparr>) \<and>
   (\<exists>st''. iterrows default_limits movie_columns [toy_story] init_accum = Inr st'')"
proof -
  let ?hg = "[JObj [(''id'', JInt 28), (''name'', JStr ''Action'')], JObj [(''id'', JInt 80)],
          JObj [(''id'', JInt 18), (''name'', JStr ''Drama'')]]"
  let ?cg = "[JObj [(''id'', JInt 18), (''name'', JStr ''Drama'')]]"
  let ?jg = "[JObj [(''id'', JInt 12), (''name'', JStr ''Adventure'')]]"
  let ?jc = "[JObj [(''id'', JInt 559), (''name'', JStr ''TriStar'')],
          JObj [(''name'', JStr ''Teitler'')]]"
  have fid: "row_getitem movie_columns (row_with_genres ''5'') ''id'' = Inr (IntCell 1)"
    by code_simp
  have fg: "field_items default_limits movie_columns (row_with_genres ''5'') ''genres'' =
      Inl TypeError"
    by code_simp
  from failing_field_keeps_prefix [OF fid, THEN conjunct1, rule_format, OF fg,
      of init_accum "[]"]
  have A: "process_row default_limits movie_columns (row_with_genres ''5'') init_accum =
     Inr (init_accum\<lparr>log_lines := [RowError (IntCell 1) TypeError]\<rparr>)"
    by (simp add: init_accum_def)
  have a1: "(1::nat) < length ?hg" by simp
  have a2: "map entity_of (take 1 ?hg) = map Inr [(JInt 28, JStr ''Action'')]" by code_simp
  have a3: "entity_of (?hg ! 1) = Inl (KeyError ''name'')" by code_simp
  from failing_field_keeps_prefix [OF heat_id, THEN conjunct2, THEN conjunct1, rule_format,
      OF heat_genres a1 a2 a3, of init_accum "[toy_story]"]
  have B: "process_row default_limits movie_columns heat init_accum =
     Inr (init_accum\<lparr>genres_list := [(JInt 28, JStr ''Action'')],
            movie_genres_list := [(IntCell 949, JInt 28)],
            log_lines := [RowError (IntCell 949) (KeyError ''name'')]\<rparr>)"
    and B': "iterrows default_limits movie_columns [heat, toy_story] init_accum =
     iterrows default_limits movie_columns [toy_story]
       (init_accum\<lparr>genres_list := [(JInt 28, JStr ''Action'')],
            movie_genres_list := [(IntCell 949, JInt 28)],
            log_lines := [RowError (IntCell 949) (KeyError ''name'')]\<rparr>)"
    by (simp_all add: init_accum_def)
  have c1: "map entity_of ?cg = map Inr [(JInt 18, JStr ''Drama'')]" by code_simp
  from failing_field_keeps_prefix [OF casino_id, THEN conjunct2, THEN conjunct2,
      THEN conjunct1, rule_format, OF casino_genres c1 casino_companies, of init_accum "[]"]
  have C: "process_row default_limits movie_columns casino init_accum =
     Inr (init_accum\<lparr>genres_list := [(JInt 18, JStr ''Drama'')],
            movie_genres_list := [(IntCell 524, JInt 18)],
            log_lines := [RowError (IntCell 524) AttributeError]\<rparr>)"
    by (simp add: init_accum_def)
  have d1: "map entity_of ?jg = map Inr [(JInt 12, JStr ''Adventure'')]" by code_simp
  have d2: "(1::nat) < length ?jc" by simp
  have d3: "map entity_of (take 1 ?jc) = map Inr [(JInt 559, JStr ''TriStar'')]" by code_simp
  have d4: "entity_of (?jc ! 1) = Inl (KeyError ''id'')" by code_simp
  from failing_field_keeps_prefix [OF jumanji_id, THEN conjunct2, THEN conjunct2,
      THEN conjunct2, THEN conjunct1, rule_format,
      OF jumanji_genres d1 jumanji_companies d2 d3 d4, of init_accum "[]"]
  have D: "process_row default_limits movie_columns jumanji init_accum =
     Inr (init_accum\<lparr>genres_list := [(JInt 12, JStr ''Adventure'')],
            movie_genres_list := [(IntCell 8844, JInt 12)],
            production_companies_list := [(JInt 559, JStr ''TriStar'')],
            movie_production_companies_list := [(IntCell 8844, JInt 559)],
            log_lines := [RowError (IntCell 8844) (KeyError ''id'')]\<rparr>)"
    by (simp add: init_accum_def)
  from failing_field_keeps_prefix [OF heat_id, THEN conjunct2, THEN conjunct2,
      THEN conjunct2, THEN conjunct2, of default_limits "[toy_story]" init_accum]
  have E: "\<exists>st''. iterrows default_limits movie_columns [toy_story] init_accum = Inr st''" .
  from fid fg A heat_id heat_genres B B' casino_id casino_genres casino_companies C
    jumanji_id jumanji_companies D E
  show ?thesis by (intro conjI)
qed

theorem failing_field_counterexample:
  "field_items default_limits movie_columns heat ''genres'' =
     Inr [JObj [(''id'', JInt 28), (''name'', JStr ''Action'')], JObj [(''id'', JInt 80)],
          JObj [(''id'', JInt 18), (''name'', JStr ''Drama'')]] \<and>
   entity_of (JObj [(''id'', JInt 80)]) = Inl (KeyError ''name'') \<and>
   process_row default_limits movie_columns heat init_accum = Inr heat_accum \<and>
   log_lines heat_accum = [RowError (IntCell 949) (KeyError ''name'')] \<and>
   genres_list heat_accum = [(JInt 28, JStr ''Action'')] \<and>
   movie_genres_list heat_accum = [(IntCell 949, JInt 28)] \<and>
   genres_list heat_accum \<noteq> genres_list init_accum \<and>
   movie_genres_list heat_accum \<noteq> movie_genres_list init_accum"
proof -
  have "entity_of (JObj [(''id'', JInt 80)]) = Inl (KeyError ''name'')" by code_simp
  moreover have "log_lines heat_accum = [RowError (IntCell 949) (KeyError ''name'')]"
    and "genres_list heat_accum = [(JInt 28, JStr ''Action'')]"
    and "movie_genres_list heat_accum = [(IntCell 949, JInt 28)]"
    and "genres_list heat_accum \<noteq> genres_list init_accum"
    and "movie_genres_list heat_accum \<noteq> movie_genres_list init_accum"
    by (simp_all add: heat_accum_def init_accum_def)
  ultimately show ?thesis using heat_genres process_row_heat by (intro conjI)
qed

end
